theory Spec2Isabelle
  imports Complex_Main
begin

section \<open>Python and numpy primitives used by the data module\<close>

text \<open>
  The exceptions that the modelled code can raise. Every \<^verbatim>\<open>raise\<close>, failed
  \<^verbatim>\<open>assert\<close> and failing library call of the source is a branch returning \<open>Inl\<close>.
\<close>

datatype error =
    FileNotFoundError
  | AssertionError
  | ValueError
  | IndexError
  | ZeroDivisionError

definition bindE :: "error + 'a \<Rightarrow> ('a \<Rightarrow> error + 'b) \<Rightarrow> error + 'b" where
  "bindE m f = (case m of Inl e \<Rightarrow> Inl e | Inr v \<Rightarrow> f v)"

text \<open>
  Python's \<^verbatim>\<open>int(x)\<close> on a float truncates toward zero. The float arguments
  (\<^verbatim>\<open>validation_fraction\<close> and the products formed with it) are modelled as
  real numbers with exact arithmetic; the rounding of binary floating point is outside
  the model.
\<close>

definition py_int :: "real \<Rightarrow> int" where
  "py_int x = (if 0 \<le> x then \<lfloor>x\<rfloor> else \<lceil>x\<rceil>)"

text \<open>
  \<^verbatim>\<open>["Y", "X"].index(tilt_axis)\<close>: the position of the axis name, or a
  \<^verbatim>\<open>ValueError\<close> when the name is neither.
\<close>

definition axis_index :: "string \<Rightarrow> error + nat" where
  "axis_index a = (if a = ''Y'' then Inr 0 else if a = ''X'' then Inr 1 else Inl ValueError)"

section \<open>Volumes and the file system\<close>

text \<open>
  A three-dimensional array: its shape and its entries. A memory-mapped MRC volume is an
  array of numbers, a validity mask an array of truth values. Only the first two axes
  are ever indexed by the code; the third is always taken whole.
\<close>

record 'a ndarray =
  vshape :: "nat \<times> nat \<times> nat"
  vdata :: "nat \<Rightarrow> nat \<Rightarrow> nat \<Rightarrow> 'a"

type_synonym volume = "real ndarray"

type_synonym mask = "bool ndarray"

fun dim3 :: "'a \<times> 'a \<times> 'a \<Rightarrow> nat \<Rightarrow> 'a" where
  "dim3 (a, b, c) i = (if i = 0 then a else if i = 1 then b else c)"

definition shape_at :: "volume \<Rightarrow> nat \<Rightarrow> int" where
  "shape_at v i = int (dim3 (vshape v) i)"

text \<open>
  An extraction window \<^verbatim>\<open>[[y0, y1], [x0, x1]]\<close>; \<open>set_axis\<close> is the list assignment
  \<^verbatim>\<open>extraction_shape[tilt_axis_index] = [lo, hi]\<close> for an index that is 0 or 1.
\<close>

type_synonym window = "(int \<times> int) \<times> (int \<times> int)"

definition set_axis :: "nat \<Rightarrow> int \<times> int \<Rightarrow> window \<Rightarrow> window" where
  "set_axis i r w = (if i = 0 then (r, snd w) else (fst w, r))"


definition mmap :: "(string \<Rightarrow> volume option) \<Rightarrow> string \<Rightarrow> error + volume" where
  "mmap files p = (case files p of None \<Rightarrow> Inl FileNotFoundError | Some v \<Rightarrow> Inr v)"

section \<open>The split point: \<^verbatim>\<open>CryoCARE_DataModule.__compute_extraction_shapes__\<close>\<close>

definition val_cut_off_of :: "int \<Rightarrow> int \<Rightarrow> real \<Rightarrow> int" where
  "val_cut_off_of extent fp validation_fraction =
     (let val_cut_off = py_int (of_int extent * (1 - validation_fraction)) - 1
      in if extent - val_cut_off < fp \<or> val_cut_off < fp
         then extent - fp - 1
         else val_cut_off)"

definition compute_extraction_shapes ::
  "(string \<Rightarrow> volume option) \<Rightarrow> string \<Rightarrow> string \<Rightarrow> nat \<Rightarrow> int \<times> int \<times> int \<Rightarrow> real
     \<Rightarrow> error + (window \<times> window)" where
  "compute_extraction_shapes files even_path odd_path tilt_axis_index sample_shape
       validation_fraction =
     bindE (mmap files even_path) (\<lambda>even.
     bindE (mmap files odd_path) (\<lambda>odd.
       if vshape even \<noteq> vshape odd then Inl AssertionError
       else if \<not> shape_at even 0 > 2 * dim3 sample_shape 0 then Inl AssertionError
       else if \<not> shape_at even 1 > 2 * dim3 sample_shape 1 then Inl AssertionError
       else
         let val_cut_off = val_cut_off_of (shape_at even tilt_axis_index)
                             (dim3 sample_shape tilt_axis_index) validation_fraction;
             whole = ((0, shape_at even 0), (0, shape_at even 1));
             extraction_shape_train = set_axis tilt_axis_index (0, val_cut_off) whole;
             extraction_shape_val =
               set_axis tilt_axis_index (val_cut_off, shape_at even tilt_axis_index) whole
         in Inr (extraction_shape_train, extraction_shape_val)))"


section \<open>The random source\<close>

text \<open>
  The code draws from numpy's global generator. The model threads the generator through
  every call as an arbitrary infinite sequence of raw draws, so that a statement proved
  for every sequence holds for every outcome of the random calls.
\<close>

type_synonym rng = "nat \<Rightarrow> nat"

definition rng_next :: "rng \<Rightarrow> nat \<times> rng" where
  "rng_next r = (r 0, \<lambda>i. r (Suc i))"

fun draw_with_replacement :: "nat \<Rightarrow> nat \<Rightarrow> rng \<Rightarrow> nat list \<times> rng" where
  "draw_with_replacement a 0 r = ([], r)"
| "draw_with_replacement a (Suc k) r =
     (case rng_next r of (v, r1) \<Rightarrow>
      case draw_with_replacement a k r1 of (vs, r2) \<Rightarrow> (v mod a # vs, r2))"

fun draw_without_replacement :: "nat list \<Rightarrow> nat \<Rightarrow> rng \<Rightarrow> nat list \<times> rng" where
  "draw_without_replacement pool 0 r = ([], r)"
| "draw_without_replacement pool (Suc k) r =
     (case rng_next r of (v, r1) \<Rightarrow>
      let j = v mod length pool in
      case draw_without_replacement (take j pool @ drop (Suc j) pool) k r1 of
        (vs, r2) \<Rightarrow> (pool ! j # vs, r2))"

text \<open>
  \<^verbatim>\<open>np.random.choice(a, n, replace=replace)\<close> for an integer population size \<open>a\<close>:
  numpy raises \<^verbatim>\<open>ValueError\<close> for a negative sample size, for an empty population
  unless no samples are taken, and for a sample without replacement larger than the
  population.
\<close>

definition np_random_choice :: "nat \<Rightarrow> int \<Rightarrow> bool \<Rightarrow> rng \<Rightarrow> error + (nat list \<times> rng)" where
  "np_random_choice a n replace r =
     (if n < 0 then Inl ValueError
      else if a = 0 \<and> n \<noteq> 0 then Inl ValueError
      else if \<not> replace \<and> int a < n then Inl ValueError
      else if replace then Inr (draw_with_replacement a (nat n) r)
      else Inr (draw_without_replacement [0..<a] (nat n) r))"

definition np_random_permutation :: "nat \<Rightarrow> rng \<Rightarrow> nat list \<times> rng" where
  "np_random_permutation n r = draw_without_replacement [0..<n] n r"

text \<open>The test \<^verbatim>\<open>np.random.rand() > 0.5\<close>: one draw, read as a truth value.\<close>

definition np_random_coin :: "rng \<Rightarrow> bool \<times> rng" where
  "np_random_coin r = (case rng_next r of (v, r1) \<Rightarrow> (odd v, r1))"

section \<open>Indexing and slicing\<close>

text \<open>
  A Python slice \<^verbatim>\<open>start:stop\<close> over an axis of length \<open>n\<close>: a negative bound counts
  from the end, and both bounds are clipped to the axis. The result is the first index
  taken and the number of indices taken.
\<close>

definition slice_bound :: "nat \<Rightarrow> int \<Rightarrow> int" where
  "slice_bound n i = (if i < 0 then max (i + int n) 0 else min i (int n))"

definition slice_indices :: "int \<Rightarrow> int \<Rightarrow> nat \<Rightarrow> nat \<times> nat" where
  "slice_indices start stop n =
     (nat (slice_bound n start), nat (slice_bound n stop - slice_bound n start))"

text \<open>Indexing a list or the first axis of an array: negative indices count from the end.\<close>

definition py_index :: "'a list \<Rightarrow> int \<Rightarrow> error + 'a" where
  "py_index xs i =
     (let n = int (length xs); j = (if i < 0 then i + n else i)
      in if 0 \<le> j \<and> j < n then Inr (xs ! nat j) else Inl IndexError)"

definition np_ones :: "nat \<times> nat \<times> nat \<Rightarrow> mask" where
  "np_ones s = \<lparr>vshape = s, vdata = (\<lambda>y x z. True)\<rparr>"

definition astype_bool :: "volume \<Rightarrow> mask" where
  "astype_bool m = \<lparr>vshape = vshape m, vdata = (\<lambda>y x z. vdata m y x z \<noteq> 0)\<rparr>"

section \<open>The coordinate sampler: \<^verbatim>\<open>CryoCARE_Dataset.create_random_coords\<close>\<close>

text \<open>
  \<open>valid_inds\<close> is the local variable of that name after line 155: the positions where
  the mask, restricted to the two slices, is true (in row-major order, one entry per
  true voxel, so a position \<open>(y, x)\<close> occurs once for every valid \<open>z\<close>), shifted by the
  slices' start values. The y slice is shortened by \<^verbatim>\<open>sample_shape[1]\<close> and the x slice
  by \<^verbatim>\<open>sample_shape[0]\<close>, as the source has it.
\<close>

definition valid_inds :: "int \<times> int \<times> int \<Rightarrow> int \<times> int \<Rightarrow> int \<times> int \<Rightarrow> mask \<Rightarrow> (int \<times> int) list" where
  "valid_inds sample_shape y x msk =
     (case slice_indices (fst y) (snd y - dim3 sample_shape 1) (dim3 (vshape msk) 0) of
        (ys, yl) \<Rightarrow>
      case slice_indices (fst x) (snd x - dim3 sample_shape 0) (dim3 (vshape msk) 1) of
        (xs, xl) \<Rightarrow>
        map (\<lambda>(i, j, k). (int i + fst y, int j + fst x))
          (filter (\<lambda>(i, j, k). vdata msk (ys + i) (xs + j) k)
             (List.product [0..<yl] (List.product [0..<xl] [0..<dim3 (vshape msk) 2]))))"

definition create_random_coords ::
  "int \<times> int \<times> int \<Rightarrow> int \<times> int \<Rightarrow> int \<times> int \<Rightarrow> mask \<Rightarrow> int \<Rightarrow> rng
     \<Rightarrow> error + ((int \<times> int) list \<times> rng)" where
  "create_random_coords sample_shape y x msk n_samples r =
     (let cands = valid_inds sample_shape y x msk
      in bindE (np_random_choice (length cands) n_samples (int (length cands) < n_samples) r)
           (\<lambda>(sample_inds, r1). Inr (map (\<lambda>s. cands ! s) sample_inds, r1)))"

section \<open>The dataset: \<^verbatim>\<open>CryoCARE_Dataset\<close>\<close>

text \<open>
  A patch as \<^verbatim>\<open>__getitem__\<close> returns it: a four-dimensional array, the last axis being
  the channel axis added by \<^verbatim>\<open>[..., np.newaxis]\<close>.
\<close>

record patch =
  pshape :: "nat list"
  pdata :: "nat \<Rightarrow> nat \<Rightarrow> nat \<Rightarrow> nat \<Rightarrow> real"

record dataset =
  tomo_paths_odd :: "string list"
  tomo_paths_even :: "string list"
  mask_paths :: "string option list"
  n_samples_per_tomo :: int
  tilt_axis :: "string option"
  rot_axes :: "nat list option"
  extraction_shapes :: "window list"
  mean :: "real option"
  std :: "real option"
  sample_shape :: "int \<times> int \<times> int"
  shuffle :: bool
  coords :: "(int \<times> int) list list"
  tomos_odd :: "volume list"
  tomos_even :: "volume list"
  n_tomos :: nat
  length_ds :: nat
  indices :: "nat list"

text \<open>The keyword arguments that \<^verbatim>\<open>save\<close> hands to \<^verbatim>\<open>np.savez\<close>.\<close>

record archive =
  a_tomo_paths_odd :: "string list"
  a_tomo_paths_even :: "string list"
  a_mean :: "real option"
  a_std :: "real option"
  a_n_samples_per_tomo :: int
  a_extraction_shapes :: "window list"
  a_sample_shape :: "int \<times> int \<times> int"
  a_shuffle :: bool
  a_coords :: "(int \<times> int) list list"
  a_tilt_axis :: "string option"

text \<open>
  Everything outside the repository that the code reads or writes: the MRC files, the
  \<^verbatim>\<open>.npz\<close> archives, and numpy's \<^verbatim>\<open>np.mean\<close> and \<^verbatim>\<open>np.std\<close> over a list of patches,
  which are floating-point library functions and are taken as parameters.
\<close>

record world =
  mrc_files :: "string \<Rightarrow> volume option"
  npz_files :: "string \<Rightarrow> archive option"
  np_mean :: "patch list \<Rightarrow> real"
  np_std :: "patch list \<Rightarrow> real"

fun mmap_all :: "(string \<Rightarrow> volume option) \<Rightarrow> string list \<Rightarrow> error + volume list" where
  "mmap_all files [] = Inr []"
| "mmap_all files (p # ps) =
     bindE (mmap files p) (\<lambda>v. bindE (mmap_all files ps) (\<lambda>vs. Inr (v # vs)))"

text \<open>
  \<^verbatim>\<open>__create_coords_for_tomo__\<close> (lines 115 to 142). \<open>read_mask\<close> is the part that
  obtains the mask (lines 122 to 129): all ones when no mask path is given, else the
  mask file read and converted to truth values, which must have the volume's shape.
\<close>

definition read_mask ::
  "(string \<Rightarrow> volume option) \<Rightarrow> string option \<Rightarrow> nat \<times> nat \<times> nat \<Rightarrow> error + mask" where
  "read_mask files mask_path shape =
     (case mask_path of
        None \<Rightarrow> Inr (np_ones shape)
      | Some p \<Rightarrow>
          bindE (mmap files p) (\<lambda>m.
            if shape \<noteq> vshape m then Inl AssertionError
            else Inr (astype_bool m)))"

definition create_coords_for_tomo ::
  "(string \<Rightarrow> volume option) \<Rightarrow> int \<times> int \<times> int \<Rightarrow> int \<Rightarrow> string \<Rightarrow> string \<Rightarrow> window
     \<Rightarrow> string option \<Rightarrow> rng \<Rightarrow> error + ((int \<times> int) list \<times> rng)" where
  "create_coords_for_tomo files sshape n_samples even_path odd_path extraction_shape mask_path r =
     bindE (mmap files even_path) (\<lambda>even.
     bindE (mmap files odd_path) (\<lambda>odd.
       if vshape even \<noteq> vshape odd then Inl AssertionError
       else
         bindE (read_mask files mask_path (vshape even)) (\<lambda>msk.
              if \<not> shape_at even 0 > 2 * dim3 sshape 0 then Inl AssertionError
              else if \<not> shape_at even 1 > 2 * dim3 sshape 1 then Inl AssertionError
              else create_random_coords sshape (fst extraction_shape) (snd extraction_shape)
                     msk n_samples r)))"

text \<open>
  \<^verbatim>\<open>create_coordinate_lists\<close> (lines 107 to 113): the loop over
  \<^verbatim>\<open>zip(tomo_paths_odd, tomo_paths_even, extraction_shapes, mask_paths)\<close>, which stops
  at the shortest of the four lists.
\<close>

fun create_coordinate_lists ::
  "(string \<Rightarrow> volume option) \<Rightarrow> int \<times> int \<times> int \<Rightarrow> int
     \<Rightarrow> (string \<times> string \<times> window \<times> string option) list \<Rightarrow> rng
     \<Rightarrow> error + ((int \<times> int) list list \<times> rng)" where
  "create_coordinate_lists files sshape n_samples [] r = Inr ([], r)"
| "create_coordinate_lists files sshape n_samples ((od, ev, es, maskfile) # rest) r =
     bindE (create_coords_for_tomo files sshape n_samples ev od es maskfile r) (\<lambda>(c, r1).
     bindE (create_coordinate_lists files sshape n_samples rest r1) (\<lambda>(cs, r2).
       Inr (c # cs, r2)))"

text \<open>
  \<^verbatim>\<open>__getitem__\<close> (lines 185 to 194). \<open>subvolume\<close> is the read
  \<^verbatim>\<open>data[y:y + sample_shape[0], x:x + sample_shape[1]]\<close> followed by
  \<^verbatim>\<open>[..., np.newaxis]\<close>: two slices on the first two axes, the third axis whole.
\<close>

definition subvolume :: "volume \<Rightarrow> int \<Rightarrow> int \<Rightarrow> int \<times> int \<times> int \<Rightarrow> patch" where
  "subvolume v y x sshape =
     (case slice_indices y (y + dim3 sshape 0) (dim3 (vshape v) 0) of (ys, yl) \<Rightarrow>
      case slice_indices x (x + dim3 sshape 1) (dim3 (vshape v) 1) of (xs, xl) \<Rightarrow>
        \<lparr>pshape = [yl, xl, dim3 (vshape v) 2, 1],
         pdata = (\<lambda>i j k c. vdata v (ys + i) (xs + j) k)\<rparr>)"

definition augment :: "patch \<Rightarrow> patch \<Rightarrow> rng \<Rightarrow> (patch \<times> patch) \<times> rng" where
  "augment x y r = (case np_random_coin r of (swap, r1) \<Rightarrow> (if swap then (y, x) else (x, y), r1))"

definition getitem :: "dataset \<Rightarrow> int \<Rightarrow> rng \<Rightarrow> error + ((patch \<times> patch) \<times> rng)" where
  "getitem self idx r =
     (if n_samples_per_tomo self = 0 then Inl ZeroDivisionError
      else
        let tomo_index = idx div n_samples_per_tomo self;
            coord_index = idx mod n_samples_per_tomo self
        in bindE (py_index (coords self) tomo_index) (\<lambda>row.
           bindE (py_index row coord_index) (\<lambda>(y, x).
           bindE (py_index (tomos_even self) tomo_index) (\<lambda>even.
           bindE (py_index (tomos_odd self) tomo_index) (\<lambda>odd.
             Inr (augment (subvolume even y x (sample_shape self))
                          (subvolume odd y x (sample_shape self)) r))))))"

text \<open>\<^verbatim>\<open>compute_mean_std\<close> (lines 96 to 105): the patches at indices 0, 1, ... in turn.\<close>

fun collect_samples :: "dataset \<Rightarrow> int list \<Rightarrow> rng \<Rightarrow> error + (patch list \<times> rng)" where
  "collect_samples self [] r = Inr ([], r)"
| "collect_samples self (i # rest) r =
     bindE (getitem self i r) (\<lambda>((x, u), r1).
     bindE (collect_samples self rest r1) (\<lambda>(samples, r2). Inr (x # samples, r2)))"

definition compute_mean_std :: "world \<Rightarrow> dataset \<Rightarrow> int \<Rightarrow> rng \<Rightarrow> error + (dataset \<times> rng)" where
  "compute_mean_std w self n_samples r =
     bindE (collect_samples self (map int [0..<nat n_samples]) r) (\<lambda>(samples, r1).
       Inr (self\<lparr>mean := Some (np_mean w samples), std := Some (np_std w samples)\<rparr>, r1))"

text \<open>
  \<^verbatim>\<open>__init__\<close> (lines 11 to 52), with the keyword arguments in the order of the
  signature.
\<close>

definition CryoCARE_Dataset_init ::
  "world \<Rightarrow> string list \<Rightarrow> string list \<Rightarrow> string option list option \<Rightarrow> int \<Rightarrow> window list
     \<Rightarrow> real option \<Rightarrow> real option \<Rightarrow> int \<times> int \<times> int \<Rightarrow> bool \<Rightarrow> int \<Rightarrow> string option \<Rightarrow> rng
     \<Rightarrow> error + (dataset \<times> rng)" where
  "CryoCARE_Dataset_init w paths_odd paths_even masks n_samples ext_shapes mean0 std0 sshape
       shuffle0 n_normalization_samples tilt r =
     bindE (case tilt of
              None \<Rightarrow> Inr None
            | Some a \<Rightarrow> bindE (axis_index a) (\<lambda>i. Inr (Some (remove1 i [0, 1])))) (\<lambda>rot.
     bindE (mmap_all (mrc_files w) paths_odd) (\<lambda>odds.
     bindE (mmap_all (mrc_files w) paths_even) (\<lambda>evens.
       let mpaths = (case masks of None \<Rightarrow> replicate (length paths_odd) None | Some ms \<Rightarrow> ms)
       in bindE (create_coordinate_lists (mrc_files w) sshape n_samples
                   (zip paths_odd (zip paths_even (zip ext_shapes mpaths))) r) (\<lambda>(cs, r1).
            let len = sum_list (map length cs);
                (inds, r2) = (if shuffle0 then np_random_permutation len r1 else ([0..<len], r1));
                self = \<lparr>tomo_paths_odd = paths_odd, tomo_paths_even = paths_even,
                        mask_paths = mpaths, n_samples_per_tomo = n_samples, tilt_axis = tilt,
                        rot_axes = rot, extraction_shapes = ext_shapes, mean = mean0,
                        std = std0, sample_shape = sshape, shuffle = shuffle0, coords = cs,
                        tomos_odd = odds, tomos_even = evens, n_tomos = length paths_odd,
                        length_ds = len, indices = inds\<rparr>
            in if mean0 = None \<or> std0 = None
               then compute_mean_std w self n_normalization_samples r2
               else Inr (self, r2)))))"

text \<open>
  \<^verbatim>\<open>save\<close> (lines 54 to 65). \<^verbatim>\<open>np.savez\<close> appends \<^verbatim>\<open>.npz\<close> to a file name that does
  not end in it; \<^verbatim>\<open>np.load\<close> opens the name it is given.
\<close>

definition endswith :: "string \<Rightarrow> string \<Rightarrow> bool" where
  "endswith p s = (length s \<le> length p \<and> drop (length p - length s) p = s)"

definition np_savez_name :: "string \<Rightarrow> string" where
  "np_savez_name p = (if endswith p ''.npz'' then p else p @ ''.npz'')"

definition Dataset_save :: "world \<Rightarrow> dataset \<Rightarrow> string \<Rightarrow> world" where
  "Dataset_save w self path =
     w\<lparr>npz_files := (npz_files w)(np_savez_name path \<mapsto>
         \<lparr>a_tomo_paths_odd = tomo_paths_odd self,
          a_tomo_paths_even = tomo_paths_even self,
          a_mean = mean self,
          a_std = std self,
          a_n_samples_per_tomo = n_samples_per_tomo self,
          a_extraction_shapes = extraction_shapes self,
          a_sample_shape = sample_shape self,
          a_shuffle = shuffle self,
          a_coords = coords self,
          a_tilt_axis = tilt_axis self\<rparr>)\<rparr>"

text \<open>
  \<^verbatim>\<open>load\<close> (lines 67 to 94). Every entry that \<^verbatim>\<open>np.load\<close> returns is an
  \<^verbatim>\<open>np.ndarray\<close>, so the test on line 79 always holds and the constructor is called
  with \<^verbatim>\<open>tilt_axis=None\<close>; it is called without mask paths and without a
  normalization budget (default 500), and the coordinates it samples are then replaced
  by the stored ones.
\<close>

definition Dataset_load :: "world \<Rightarrow> string \<Rightarrow> rng \<Rightarrow> error + (dataset \<times> rng)" where
  "Dataset_load w path r =
     (case npz_files w path of
        None \<Rightarrow> Inl FileNotFoundError
      | Some tmp \<Rightarrow>
          bindE (CryoCARE_Dataset_init w (a_tomo_paths_odd tmp) (a_tomo_paths_even tmp) None
                   (a_n_samples_per_tomo tmp) (a_extraction_shapes tmp) (a_mean tmp) (a_std tmp)
                   (a_sample_shape tmp) (a_shuffle tmp) 500 None r) (\<lambda>(ds, r1).
            Inr (ds\<lparr>coords := a_coords tmp\<rparr>, r1)))"

section \<open>The orchestrator: \<^verbatim>\<open>CryoCARE_DataModule\<close>\<close>

record datamodule =
  train_dataset :: dataset
  val_dataset :: dataset

text \<open>The loop of \<^verbatim>\<open>setup\<close> over \<^verbatim>\<open>zip(tomo_paths_even, tomo_paths_odd)\<close> (lines 220 to 225).\<close>

fun extraction_shapes_loop ::
  "(string \<Rightarrow> volume option) \<Rightarrow> string \<Rightarrow> int \<times> int \<times> int \<Rightarrow> real \<Rightarrow> (string \<times> string) list
     \<Rightarrow> error + (window list \<times> window list)" where
  "extraction_shapes_loop files tilt sshape vf [] = Inr ([], [])"
| "extraction_shapes_loop files tilt sshape vf ((e, od) # rest) =
     bindE (axis_index tilt) (\<lambda>i.
     bindE (compute_extraction_shapes files e od i sshape vf) (\<lambda>(tes, ves).
     bindE (extraction_shapes_loop files tilt sshape vf rest) (\<lambda>(ts, vs).
       Inr (tes # ts, ves # vs))))"

text \<open>\<^verbatim>\<open>setup\<close> (lines 216 to 248).\<close>

definition DataModule_setup ::
  "world \<Rightarrow> string list \<Rightarrow> string list \<Rightarrow> string option list option \<Rightarrow> int \<Rightarrow> real
     \<Rightarrow> int \<times> int \<times> int \<Rightarrow> string \<Rightarrow> int \<Rightarrow> rng \<Rightarrow> error + (datamodule \<times> rng)" where
  "DataModule_setup w paths_odd paths_even masks n_samples validation_fraction sshape tilt
       n_normalization_samples r =
     bindE (extraction_shapes_loop (mrc_files w) tilt sshape validation_fraction
              (zip paths_even paths_odd)) (\<lambda>(train_extraction_shapes, val_extraction_shapes).
     bindE (CryoCARE_Dataset_init w paths_odd paths_even masks
              (py_int (of_int n_samples * (1 - validation_fraction)))
              train_extraction_shapes None None sshape True n_normalization_samples
              (Some tilt) r) (\<lambda>(train, r1).
     bindE (CryoCARE_Dataset_init w paths_odd paths_even masks
              (py_int (of_int n_samples * validation_fraction))
              val_extraction_shapes (mean train) (std train) sshape False 500 None r1)
       (\<lambda>(val, r2). Inr (\<lparr>train_dataset = train, val_dataset = val\<rparr>, r2))))"

text \<open>\<^verbatim>\<open>os.path.join\<close> of a directory and a relative file name.\<close>

definition path_join :: "string \<Rightarrow> string \<Rightarrow> string" where
  "path_join p q = (if p = [] \<or> last p = CHR ''/'' then p @ q else p @ ''/'' @ q)"

definition DataModule_save :: "world \<Rightarrow> datamodule \<Rightarrow> string \<Rightarrow> world" where
  "DataModule_save w dm path =
     Dataset_save (Dataset_save w (train_dataset dm) (path_join path ''train_data.npz''))
       (val_dataset dm) (path_join path ''val_data.npz'')"

definition DataModule_load :: "world \<Rightarrow> string \<Rightarrow> rng \<Rightarrow> error + (datamodule \<times> rng)" where
  "DataModule_load w path r =
     bindE (Dataset_load w (path_join path ''train_data.npz'') r) (\<lambda>(train, r1).
     bindE (Dataset_load w (path_join path ''val_data.npz'') r1) (\<lambda>(val, r2).
       Inr (\<lparr>train_dataset = train, val_dataset = val\<rparr>, r2)))"


section \<open>Datasets that the index arithmetic fits\<close>

text \<open>
  \<^verbatim>\<open>__getitem__\<close> divides the global index by \<^verbatim>\<open>n_samples_per_tomo\<close>. That fits a
  dataset in which every coordinate set has that many entries and every coordinate set
  has its pair of open volumes; the constructor builds such datasets.
\<close>

definition well_formed :: "dataset \<Rightarrow> bool" where
  "well_formed self \<longleftrightarrow>
     (\<forall>row\<in>set (coords self). int (length row) = n_samples_per_tomo self)
     \<and> length (coords self) \<le> length (tomos_even self)
     \<and> length (coords self) \<le> length (tomos_odd self)"

section \<open>Concrete inputs\<close>



text \<open>
  A small world: one pair of volumes of shape (5, 5, 2), a mask file of the same shape
  that is zero everywhere, no archives yet, and fixed values for the two statistics. The
  random source \<open>rng0\<close> always draws 0.
\<close>

definition vol0 :: "real \<Rightarrow> volume" where
  "vol0 c = \<lparr>vshape = (5, 5, 2), vdata = (\<lambda>y x z. c)\<rparr>"

definition world0 :: world where
  "world0 = \<lparr>mrc_files = (\<lambda>p. if p = ''odd.mrc'' then Some (vol0 1)
                               else if p = ''even.mrc'' then Some (vol0 2)
                               else if p = ''mask.mrc'' then Some (vol0 0) else None),
             npz_files = (\<lambda>p. None),
             np_mean = (\<lambda>ps. 0),
             np_std = (\<lambda>ps. 1)\<rparr>"

definition rng0 :: rng where
  "rng0 = (\<lambda>i. 0)"

text \<open>
  The two datasets that \<^verbatim>\<open>setup\<close> builds in that world for six samples per volume, a
  validation fraction of 3/8, footprint (1, 1, 1), split axis Y and a normalization
  budget of two patches.
\<close>

definition train0 :: dataset where
  "train0 = \<lparr>tomo_paths_odd = [''odd.mrc''], tomo_paths_even = [''even.mrc''],
              mask_paths = [None], n_samples_per_tomo = 3, tilt_axis = Some ''Y'',
              rot_axes = Some [1], extraction_shapes = [((0, 2), (0, 5))],
              mean = Some 0, std = Some 1, sample_shape = (1, 1, 1), shuffle = True,
              coords = [[(0, 0), (0, 0), (0, 1)]], tomos_odd = [vol0 1],
              tomos_even = [vol0 2], n_tomos = 1, length_ds = 3, indices = [0, 1, 2]\<rparr>"

definition val0 :: dataset where
  "val0 = \<lparr>tomo_paths_odd = [''odd.mrc''], tomo_paths_even = [''even.mrc''],
            mask_paths = [None], n_samples_per_tomo = 2, tilt_axis = None,
            rot_axes = None, extraction_shapes = [((2, 5), (0, 5))],
            mean = Some 0, std = Some 1, sample_shape = (1, 1, 1), shuffle = False,
            coords = [[(2, 0), (2, 0)]], tomos_odd = [vol0 1],
            tomos_even = [vol0 2], n_tomos = 1, length_ds = 2, indices = [0, 1]\<rparr>"

text \<open>
  The dataset that the constructor builds in that world when asked for no samples at all
  (statistics supplied).
\<close>

definition none0 :: dataset where
  "none0 = \<lparr>tomo_paths_odd = [''odd.mrc''], tomo_paths_even = [''even.mrc''],
             mask_paths = [None], n_samples_per_tomo = 0, tilt_axis = None,
             rot_axes = None, extraction_shapes = [((0, 2), (0, 5))],
             mean = Some 0, std = Some 1, sample_shape = (1, 1, 1), shuffle = True,
             coords = [[]], tomos_odd = [vol0 1],
             tomos_even = [vol0 2], n_tomos = 1, length_ds = 0, indices = []\<rparr>"

text \<open>
  The small world with one more mask file, of the same shape, that is non-zero exactly
  on the rows \<open>y < 2\<close>, and the two datasets that \<^verbatim>\<open>setup\<close> builds there with that
  mask for two samples per volume, a validation fraction of 3/8 and a normalization
  budget of one patch.
\<close>

definition top0 :: volume where
  "top0 = \<lparr>vshape = (5, 5, 2), vdata = (\<lambda>y x z. if y < 2 then 1 else 0)\<rparr>"

definition world1 :: world where
  "world1 = world0\<lparr>mrc_files := (\<lambda>p. if p = ''top.mrc'' then Some top0 else mrc_files world0 p)\<rparr>"

definition train1 :: dataset where
  "train1 = train0\<lparr>mask_paths := [Some ''top.mrc''], n_samples_per_tomo := 1,
                    coords := [[(0, 0)]], length_ds := 1, indices := [0]\<rparr>"

definition val1 :: dataset where
  "val1 = val0\<lparr>mask_paths := [Some ''top.mrc''], n_samples_per_tomo := 0,
                coords := [[]], length_ds := 0, indices := []\<rparr>"

text \<open>
  A pair of volumes of shape (7, 7, 1), for a footprint that is not square, and a random
  source that always draws 4.
\<close>

definition vol7 :: volume where
  "vol7 = \<lparr>vshape = (7, 7, 1), vdata = (\<lambda>y x z. 0)\<rparr>"

definition files7 :: "string \<Rightarrow> volume option" where
  "files7 p = (if p = ''even.mrc'' \<or> p = ''odd.mrc'' then Some vol7 else None)"

definition rng4 :: rng where
  "rng4 = (\<lambda>i. 4)"

section \<open>Basic facts about the primitives\<close>

lemma bindE_simps [simp]:
  "bindE (Inl e) f = Inl e"
  "bindE (Inr v) f = f v"
  by (simp_all add: bindE_def)

lemma bindE_eq_Inr:
  "bindE m f = Inr r \<longleftrightarrow> (\<exists>v. m = Inr v \<and> f v = Inr r)"
  by (cases m) simp_all

lemma mmap_eq_Inr: "mmap files p = Inr v \<longleftrightarrow> files p = Some v"
  by (simp add: mmap_def split: option.splits)


section \<open>The split point\<close>






section \<open>The coordinate sampler\<close>

lemma rng_next_eq: "rng_next r = (r 0, \<lambda>i. r (Suc i))"
  by (simp add: rng_next_def)

lemma draw_with_replacement_eq:
  "draw_with_replacement a k r = (map (\<lambda>i. r i mod a) [0..<k], \<lambda>i. r (i + k))"
proof (induction k arbitrary: r)
  case 0
  then show ?case by simp
next
  case (Suc k)
  have "draw_with_replacement a (Suc k) r =
          (r 0 mod a # map (\<lambda>i. r (Suc i) mod a) [0..<k], \<lambda>i. r (Suc (i + k)))"
    by (simp add: rng_next_def Suc.IH)
  also have "r 0 mod a # map (\<lambda>i. r (Suc i) mod a) [0..<k] = map (\<lambda>i. r i mod a) [0..<Suc k]"
    by (simp only: map_upt_Suc)
  finally show ?case by simp
qed

lemma draw_without_replacement_props:
  assumes "k \<le> length pool" "draw_without_replacement pool k r = (vs, r')"
  shows "length vs = k \<and> set vs \<subseteq> set pool \<and> (distinct pool \<longrightarrow> distinct vs)"
  using assms
proof (induction k arbitrary: pool r vs r')
  case 0
  then show ?case by simp
next
  case (Suc k)
  define j where "j = r 0 mod length pool"
  define pool' where "pool' = take j pool @ drop (Suc j) pool"
  from Suc.prems(1) have ne: "0 < length pool" by (cases pool) auto
  then have j: "j < length pool" by (simp add: j_def)
  obtain ws r2 where rec: "draw_without_replacement pool' k (\<lambda>i. r (Suc i)) = (ws, r2)"
    by (cases "draw_without_replacement pool' k (\<lambda>i. r (Suc i))")
  from Suc.prems(2) rec have vs: "vs = pool ! j # ws"
    by (simp add: rng_next_def Let_def j_def pool'_def)
  have len': "k \<le> length pool'"
    using Suc.prems(1) j by (simp add: pool'_def)
  from Suc.IH [OF len' rec]
  have ih: "length ws = k" "set ws \<subseteq> set pool'" "distinct pool' \<longrightarrow> distinct ws"
    by simp_all
  have sub: "set pool' \<subseteq> set pool"
    unfolding pool'_def using set_take_subset [of j pool] set_drop_subset [of "Suc j" pool]
    by auto
  have dist: "distinct pool' \<and> pool ! j \<notin> set pool'" if d: "distinct pool"
  proof -
    have "pool = take j pool @ pool ! j # drop (Suc j) pool"
      using j by (simp add: id_take_nth_drop)
    then have "distinct (take j pool @ pool ! j # drop (Suc j) pool)"
      using d by simp
    then show ?thesis
      by (auto simp: pool'_def)
  qed
  show ?case
    using ih sub dist j by (auto simp: vs)
qed

lemma choice_Inr_iff:
  "(\<exists>res. np_random_choice a n (int a < n) r = Inr res) \<longleftrightarrow> 0 \<le> n \<and> (a = 0 \<longrightarrow> n = 0)"
  by (auto simp: np_random_choice_def)

lemma choice_empty: "0 < n \<Longrightarrow> np_random_choice 0 n b r = Inl ValueError"
  by (simp add: np_random_choice_def)

lemma choice_props:
  assumes "np_random_choice a n (int a < n) r = Inr (idxs, r')"
  shows "length idxs = nat n \<and> (\<forall>i\<in>set idxs. i < a) \<and> (n \<le> int a \<longrightarrow> distinct idxs)
         \<and> (int a < n \<longrightarrow> idxs = map (\<lambda>i. r i mod a) [0..<nat n])"
proof (cases "int a < n")
  case True
  with assms have a: "0 < a" and eq: "draw_with_replacement a (nat n) r = (idxs, r')"
    by (auto simp: np_random_choice_def split: if_splits)
  from eq have "idxs = map (\<lambda>i. r i mod a) [0..<nat n]"
    by (simp add: draw_with_replacement_eq)
  with a True show ?thesis by auto
next
  case False
  with assms have n: "0 \<le> n" and eq: "draw_without_replacement [0..<a] (nat n) r = (idxs, r')"
    by (auto simp: np_random_choice_def split: if_splits)
  have "nat n \<le> length [0..<a]" using False by simp
  from draw_without_replacement_props [OF this eq] False show ?thesis by auto
qed

lemma create_random_coords_Inl:
  "valid_inds ss y x m = [] \<Longrightarrow> 0 < n \<Longrightarrow> create_random_coords ss y x m n r = Inl ValueError"
  by (simp add: create_random_coords_def choice_empty)

lemma create_random_coords_Inr:
  assumes "create_random_coords ss y x m n r = Inr (cs, r')"
  obtains idxs where "np_random_choice (length (valid_inds ss y x m)) n
                        (int (length (valid_inds ss y x m)) < n) r = Inr (idxs, r')"
    and "cs = map (\<lambda>s. valid_inds ss y x m ! s) idxs"
  using assms by (auto simp: create_random_coords_def Let_def bindE_eq_Inr)

lemma create_random_coords_ok_iff:
  "(\<exists>res. create_random_coords ss y x m n r = Inr res)
     \<longleftrightarrow> 0 \<le> n \<and> (valid_inds ss y x m = [] \<longrightarrow> n = 0)"
proof -
  have "(\<exists>res. create_random_coords ss y x m n r = Inr res) \<longleftrightarrow>
        (\<exists>res. np_random_choice (length (valid_inds ss y x m)) n
                        (int (length (valid_inds ss y x m)) < n) r = Inr res)"
    by (auto simp: create_random_coords_def Let_def bindE_eq_Inr)
  then show ?thesis
    using choice_Inr_iff [of "length (valid_inds ss y x m)" n r] by blast
qed

lemma rng_next0 [simp]: "rng_next rng0 = (0, rng0)"
  by (simp add: rng_next_def rng0_def)

lemma draw_without_rng0:
  "k \<le> length pool \<Longrightarrow> draw_without_replacement pool k rng0 = (take k pool, rng0)"
proof (induction k arbitrary: pool)
  case 0
  then show ?case by simp
next
  case (Suc k)
  then obtain x xs where p: "pool = x # xs" by (cases pool) auto
  with Suc show ?case by simp
qed

lemma choice_rng0:
  "0 \<le> n \<Longrightarrow> n \<le> int a \<Longrightarrow> np_random_choice a n False rng0 = Inr ([0..<nat n], rng0)"
  by (auto simp: np_random_choice_def draw_without_rng0 take_upt)

lemma create_random_coords_rng0:
  assumes "0 \<le> n" "n \<le> int (length (valid_inds ss y x m))"
  shows "create_random_coords ss y x m n rng0 = Inr (take (nat n) (valid_inds ss y x m), rng0)"
proof -
  have "map (\<lambda>s. valid_inds ss y x m ! s) [0..<nat n] = take (nat n) (valid_inds ss y x m)"
    using assms by (metis map_nth nat_le_iff take_map take_upt add_0)
  then show ?thesis
    using assms by (simp add: create_random_coords_def Let_def choice_rng0 not_less)
qed

lemma valid_inds_train0:
  "valid_inds (1, 1, 1) (0, 2) (0, 5) (np_ones (5, 5, 2))
     = [(0, 0), (0, 0), (0, 1), (0, 1), (0, 2), (0, 2), (0, 3), (0, 3)]"
  by (simp add: valid_inds_def slice_indices_def slice_bound_def np_ones_def upt_conv_Cons)

lemma valid_inds_val0:
  "valid_inds (1, 1, 1) (2, 5) (0, 5) (np_ones (5, 5, 2))
     = [(2, 0), (2, 0), (2, 1), (2, 1), (2, 2), (2, 2), (2, 3), (2, 3),
        (3, 0), (3, 0), (3, 1), (3, 1), (3, 2), (3, 2), (3, 3), (3, 3)]"
  by (simp add: valid_inds_def slice_indices_def slice_bound_def np_ones_def upt_conv_Cons)

text \<open>
  Claim C7. For every non-empty candidate set and every sample count (a non-negative
  number), the sampler returns exactly that many coordinate pairs, each the candidate at
  a drawn position. When the candidate set is smaller than the count the positions are
  drawn with replacement: each position is its own raw draw reduced modulo the size of
  the candidate set, whatever was drawn before. Otherwise they are drawn without
  replacement: the positions are pairwise distinct. That each outcome is equally likely
  is a property of numpy's generator and is not part of the model.
\<close>

theorem sampler_returns_count:
  assumes "valid_inds ss y x m \<noteq> []" and "0 \<le> n"
  shows "\<exists>idxs r'. create_random_coords ss y x m n r
                     = Inr (map (\<lambda>s. valid_inds ss y x m ! s) idxs, r')
           \<and> length (map (\<lambda>s. valid_inds ss y x m ! s) idxs) = nat n
           \<and> (\<forall>i\<in>set idxs. i < length (valid_inds ss y x m))
           \<and> (int (length (valid_inds ss y x m)) < n \<longrightarrow>
                idxs = map (\<lambda>i. r i mod length (valid_inds ss y x m)) [0..<nat n])
           \<and> (n \<le> int (length (valid_inds ss y x m)) \<longrightarrow> distinct idxs)"
proof -
  from assms obtain res where "create_random_coords ss y x m n r = Inr res"
    using create_random_coords_ok_iff [of ss y x m n r] by auto
  then obtain cs r' where run: "create_random_coords ss y x m n r = Inr (cs, r')"
    by (cases res) auto
  then obtain idxs where
    ch: "np_random_choice (length (valid_inds ss y x m)) n
            (int (length (valid_inds ss y x m)) < n) r = Inr (idxs, r')"
    and cs: "cs = map (\<lambda>s. valid_inds ss y x m ! s) idxs"
    by (rule create_random_coords_Inr)
  have run': "create_random_coords ss y x m n r
                = Inr (map (\<lambda>s. valid_inds ss y x m ! s) idxs, r')"
    using run cs by simp
  have "length idxs = nat n"
    using choice_props [OF ch] by blast
  then have p1: "length (map (\<lambda>s. valid_inds ss y x m ! s) idxs) = nat n"
    by simp
  have p2: "\<forall>i\<in>set idxs. i < length (valid_inds ss y x m)"
    using choice_props [OF ch] by blast
  have p3: "n \<le> int (length (valid_inds ss y x m)) \<longrightarrow> distinct idxs"
    using choice_props [OF ch] by blast
  have p4: "int (length (valid_inds ss y x m)) < n \<longrightarrow>
       idxs = map (\<lambda>i. r i mod length (valid_inds ss y x m)) [0..<nat n]"
    using choice_props [OF ch] by blast
  from run' p1 p2 p3 p4 show ?thesis by blast
qed

theorem sampler_returns_count_witness:
  "valid_inds (1, 1, 1) (0, 2) (0, 5) (np_ones (5, 5, 2)) \<noteq> [] \<and> (0::int) \<le> 3
   \<and> (\<exists>idxs r'. create_random_coords (1, 1, 1) (0, 2) (0, 5) (np_ones (5, 5, 2)) 3 rng0
                     = Inr (map (\<lambda>s. valid_inds (1, 1, 1) (0, 2) (0, 5) (np_ones (5, 5, 2)) ! s) idxs, r')
         \<and> length idxs = 3 \<and> distinct idxs)"
proof -
  have ne: "valid_inds (1, 1, 1) (0, 2) (0, 5) (np_ones (5, 5, 2)) \<noteq> []"
    by (simp add: valid_inds_train0)
  have len: "length (valid_inds (1, 1, 1) (0, 2) (0, 5) (np_ones (5, 5, 2))) = 8"
    by (simp add: valid_inds_train0)
  from sampler_returns_count [OF ne, of 3 rng0]
  obtain idxs r' where
    "create_random_coords (1, 1, 1) (0, 2) (0, 5) (np_ones (5, 5, 2)) 3 rng0
       = Inr (map (\<lambda>s. valid_inds (1, 1, 1) (0, 2) (0, 5) (np_ones (5, 5, 2)) ! s) idxs, r')"
    "length idxs = 3" "distinct idxs"
    by (auto simp: len)
  then have "\<exists>idxs r'. create_random_coords (1, 1, 1) (0, 2) (0, 5) (np_ones (5, 5, 2)) 3 rng0
                     = Inr (map (\<lambda>s. valid_inds (1, 1, 1) (0, 2) (0, 5) (np_ones (5, 5, 2)) ! s) idxs, r')
         \<and> length idxs = 3 \<and> distinct idxs"
    by blast
  with ne show ?thesis by simp
qed

section \<open>The run of \<^verbatim>\<open>setup\<close> in the small world\<close>

lemma mrc_world0 [simp]:
  "mrc_files world0 ''odd.mrc'' = Some (vol0 1)"
  "mrc_files world0 ''even.mrc'' = Some (vol0 2)"
  by (simp_all add: world0_def)

lemma es_loop0:
  "extraction_shapes_loop (mrc_files world0) ''Y'' (1, 1, 1) (3 / 8) [(''even.mrc'', ''odd.mrc'')]
     = Inr ([((0, 2), (0, 5))], [((2, 5), (0, 5))])"
  by (simp add: axis_index_def compute_extraction_shapes_def mmap_def vol0_def
      shape_at_def val_cut_off_of_def py_int_def set_axis_def Let_def)

lemma coords_train0:
  "create_coords_for_tomo (mrc_files world0) (1, 1, 1) 3 ''even.mrc'' ''odd.mrc''
     ((0, 2), (0, 5)) None rng0 = Inr ([(0, 0), (0, 0), (0, 1)], rng0)"
proof -
  have "create_random_coords (1, 1, 1) (0, 2) (0, 5) (np_ones (5, 5, 2)) 3 rng0
          = Inr ([(0, 0), (0, 0), (0, 1)], rng0)"
    by (simp add: create_random_coords_rng0 valid_inds_train0)
  then show ?thesis
    by (simp add: create_coords_for_tomo_def read_mask_def mmap_def vol0_def shape_at_def)
qed

lemma coords_val0:
  "create_coords_for_tomo (mrc_files world0) (1, 1, 1) 2 ''even.mrc'' ''odd.mrc''
     ((2, 5), (0, 5)) None rng0 = Inr ([(2, 0), (2, 0)], rng0)"
proof -
  have "create_random_coords (1, 1, 1) (2, 5) (0, 5) (np_ones (5, 5, 2)) 2 rng0
          = Inr ([(2, 0), (2, 0)], rng0)"
    by (simp add: create_random_coords_rng0 valid_inds_val0)
  then show ?thesis
    by (simp add: create_coords_for_tomo_def read_mask_def mmap_def vol0_def shape_at_def)
qed

lemma permutation_rng0: "np_random_permutation n rng0 = ([0..<n], rng0)"
  by (simp add: np_random_permutation_def draw_without_rng0)

lemma augment_rng0: "augment p q rng0 = ((p, q), rng0)"
  by (simp add: augment_def np_random_coin_def)

lemma getitem_train0:
  assumes "coords self = [[(0, 0), (0, 0), (0, 1)]]" "n_samples_per_tomo self = 3"
    "tomos_even self = [vol0 2]" "tomos_odd self = [vol0 1]" "i = 0 \<or> i = 1"
  shows "\<exists>p q. getitem self i rng0 = Inr ((p, q), rng0)"
  using assms by (auto simp: getitem_def py_index_def augment_rng0 Let_def)

lemma py_int_counts0: "py_int (of_int 6 * (1 - 3 / 8)) = 3" "py_int (of_int 6 * (3 / 8)) = 2"
  by (simp_all add: py_int_def)

lemma init_train0:
  "CryoCARE_Dataset_init world0 [''odd.mrc''] [''even.mrc''] None 3 [((0, 2), (0, 5))]
     None None (1, 1, 1) True 2 (Some ''Y'') rng0 = Inr (train0, rng0)"
proof -
  define self0 where "self0 = train0\<lparr>mean := None, std := None\<rparr>"
  have g0: "\<exists>p q. getitem self0 0 rng0 = Inr ((p, q), rng0)"
    by (rule getitem_train0) (simp_all add: self0_def train0_def)
  have g1: "\<exists>p q. getitem self0 1 rng0 = Inr ((p, q), rng0)"
    by (rule getitem_train0) (simp_all add: self0_def train0_def)
  from g0 g1 have "\<exists>samples. collect_samples self0 [0, 1] rng0 = Inr (samples, rng0)"
    by auto
  then have cms: "compute_mean_std world0 self0 2 rng0 = Inr (train0, rng0)"
    by (auto simp: compute_mean_std_def upt_conv_Cons world0_def self0_def train0_def)
  show ?thesis
    using cms
    by (simp add: CryoCARE_Dataset_init_def axis_index_def mmap_def coords_train0
        permutation_rng0 upt_conv_Cons self0_def train0_def Let_def
        numeral_3_eq_3 [symmetric] numeral_2_eq_2 [symmetric])
qed

lemma init_val0:
  "CryoCARE_Dataset_init world0 [''odd.mrc''] [''even.mrc''] None 2 [((2, 5), (0, 5))]
     (Some 0) (Some 1) (1, 1, 1) False 500 None rng0 = Inr (val0, rng0)"
  by (simp add: CryoCARE_Dataset_init_def mmap_def coords_val0 upt_conv_Cons val0_def Let_def
      numeral_2_eq_2 [symmetric])

lemma setup0:
  "DataModule_setup world0 [''odd.mrc''] [''even.mrc''] None 6 (3 / 8) (1, 1, 1) ''Y'' 2 rng0
     = Inr (\<lparr>train_dataset = train0, val_dataset = val0\<rparr>, rng0)"
proof -
  have m: "mean train0 = Some 0" "std train0 = Some 1"
    by (simp_all add: train0_def)
  have z: "zip [''even.mrc''] [''odd.mrc''] = [(''even.mrc'', ''odd.mrc'')]"
    by simp
  show ?thesis
    by (simp only: DataModule_setup_def z es_loop0 bindE_simps prod.case py_int_counts0
        init_train0 m init_val0)
qed

section \<open>What the constructor and \<^verbatim>\<open>setup\<close> return\<close>

lemma compute_mean_std_Inr:
  assumes "compute_mean_std w self n r = Inr (ds, r')"
  obtains samples where
    "ds = self\<lparr>mean := Some (np_mean w samples), std := Some (np_std w samples)\<rparr>"
  using assms by (auto simp: compute_mean_std_def bindE_eq_Inr)

lemma init_Inr:
  assumes run: "CryoCARE_Dataset_init w po pe masks n es m0 s0 ss sh budget tilt r = Inr (ds, r')"
  shows "tomo_paths_odd ds = po \<and> tomo_paths_even ds = pe \<and> n_samples_per_tomo ds = n
         \<and> tilt_axis ds = tilt \<and> extraction_shapes ds = es \<and> sample_shape ds = ss
         \<and> shuffle ds = sh
         \<and> mask_paths ds = (case masks of None \<Rightarrow> replicate (length po) None | Some ms \<Rightarrow> ms)
         \<and> mean ds \<noteq> None \<and> std ds \<noteq> None
         \<and> (m0 \<noteq> None \<and> s0 \<noteq> None \<longrightarrow> mean ds = m0 \<and> std ds = s0)
         \<and> mmap_all (mrc_files w) po = Inr (tomos_odd ds)
         \<and> mmap_all (mrc_files w) pe = Inr (tomos_even ds)
         \<and> length_ds ds = sum_list (map length (coords ds))
         \<and> (\<exists>r1. create_coordinate_lists (mrc_files w) ss n
                    (zip po (zip pe (zip es
                       (case masks of None \<Rightarrow> replicate (length po) None | Some ms \<Rightarrow> ms)))) r
                  = Inr (coords ds, r1))"
  using run unfolding CryoCARE_Dataset_init_def
  by (auto simp: Let_def bindE_eq_Inr prod.case_eq_if split: if_splits
           elim!: compute_mean_std_Inr intro: exI [of _ "snd v" for v])

lemma setup_Inr:
  assumes "DataModule_setup w po pe masks n vf ss tilt budget r = Inr (dm, r')"
  obtains tes ves r1 where
    "extraction_shapes_loop (mrc_files w) tilt ss vf (zip pe po) = Inr (tes, ves)"
    "CryoCARE_Dataset_init w po pe masks (py_int (of_int n * (1 - vf))) tes None None ss True
       budget (Some tilt) r = Inr (train_dataset dm, r1)"
    "CryoCARE_Dataset_init w po pe masks (py_int (of_int n * vf)) ves
       (mean (train_dataset dm)) (std (train_dataset dm)) ss False 500 None r1
       = Inr (val_dataset dm, r')"
proof -
  from assms have
    "\<exists>v1. extraction_shapes_loop (mrc_files w) tilt ss vf (zip pe po) = Inr v1 \<and>
       (\<exists>v2. CryoCARE_Dataset_init w po pe masks (py_int (of_int n * (1 - vf))) (fst v1)
               None None ss True budget (Some tilt) r = Inr v2 \<and>
         (\<exists>v3. CryoCARE_Dataset_init w po pe masks (py_int (of_int n * vf)) (snd v1)
                 (mean (fst v2)) (std (fst v2)) ss False 500 None (snd v2) = Inr v3 \<and>
               \<lparr>train_dataset = fst v2, val_dataset = fst v3\<rparr> = dm \<and> snd v3 = r'))"
    unfolding DataModule_setup_def by (simp add: bindE_eq_Inr prod.case_eq_if)
  then obtain v1 v2 v3 where
    a: "extraction_shapes_loop (mrc_files w) tilt ss vf (zip pe po) = Inr v1" and
    b: "CryoCARE_Dataset_init w po pe masks (py_int (of_int n * (1 - vf))) (fst v1)
               None None ss True budget (Some tilt) r = Inr v2" and
    c: "CryoCARE_Dataset_init w po pe masks (py_int (of_int n * vf)) (snd v1)
                 (mean (fst v2)) (std (fst v2)) ss False 500 None (snd v2) = Inr v3" and
    d: "\<lparr>train_dataset = fst v2, val_dataset = fst v3\<rparr> = dm" "snd v3 = r'"
    by blast
  from d have e: "fst v2 = train_dataset dm" "fst v3 = val_dataset dm" by auto
  have v2: "v2 = (train_dataset dm, snd v2)" and v3: "v3 = (val_dataset dm, r')"
    using e d by (simp_all add: prod_eq_iff)
  show ?thesis
  proof (rule that [of "fst v1" "snd v1" "snd v2"])
    show "extraction_shapes_loop (mrc_files w) tilt ss vf (zip pe po) = Inr (fst v1, snd v1)"
      using a by simp
    show "CryoCARE_Dataset_init w po pe masks (py_int (of_int n * (1 - vf))) (fst v1) None None
            ss True budget (Some tilt) r = Inr (train_dataset dm, snd v2)"
      using b v2 by simp
    show "CryoCARE_Dataset_init w po pe masks (py_int (of_int n * vf)) (snd v1)
            (mean (train_dataset dm)) (std (train_dataset dm)) ss False 500 None (snd v2)
            = Inr (val_dataset dm, r')"
      using c v3 e by simp
  qed
qed





section \<open>Persistence\<close>

lemma endswith_append: "endswith q s \<Longrightarrow> endswith (p @ q) s"
  by (auto simp: endswith_def)

lemma path_join_suffix: "\<exists>pre. path_join p q = pre @ q"
  by (auto simp: path_join_def intro: exI [of _ "p @ ''/''"])

lemma savez_name_join:
  assumes "endswith q ''.npz''"
  shows "np_savez_name (path_join p q) = path_join p q"
proof -
  obtain pre where "path_join p q = pre @ q"
    using path_join_suffix by blast
  with assms show ?thesis
    by (simp add: np_savez_name_def endswith_append)
qed

lemma endswith_names:
  "endswith ''train_data.npz'' ''.npz''" "endswith ''val_data.npz'' ''.npz''"
  by (simp_all add: endswith_def)

lemma path_join_inj: "path_join p q = path_join p q' \<longleftrightarrow> q = q'"
  by (simp add: path_join_def)

lemma Dataset_save_files:
  "mrc_files (Dataset_save w ds path) = mrc_files w"
  "np_mean (Dataset_save w ds path) = np_mean w"
  "np_std (Dataset_save w ds path) = np_std w"
  by (simp_all add: Dataset_save_def)

lemma Dataset_save_npz:
  "npz_files (Dataset_save w ds path) p =
     (if p = np_savez_name path
      then Some \<lparr>a_tomo_paths_odd = tomo_paths_odd ds,
                 a_tomo_paths_even = tomo_paths_even ds,
                 a_mean = mean ds,
                 a_std = std ds,
                 a_n_samples_per_tomo = n_samples_per_tomo ds,
                 a_extraction_shapes = extraction_shapes ds,
                 a_sample_shape = sample_shape ds,
                 a_shuffle = shuffle ds,
                 a_coords = coords ds,
                 a_tilt_axis = tilt_axis ds\<rparr>
      else npz_files w p)"
  by (simp add: Dataset_save_def)

lemma DataModule_save_files:
  "mrc_files (DataModule_save w dm path) = mrc_files w"
  by (simp add: DataModule_save_def Dataset_save_files)

lemma DataModule_save_train:
  "npz_files (DataModule_save w dm path) (path_join path ''train_data.npz'') =
     Some \<lparr>a_tomo_paths_odd = tomo_paths_odd (train_dataset dm),
                 a_tomo_paths_even = tomo_paths_even (train_dataset dm),
                 a_mean = mean (train_dataset dm),
                 a_std = std (train_dataset dm),
                 a_n_samples_per_tomo = n_samples_per_tomo (train_dataset dm),
                 a_extraction_shapes = extraction_shapes (train_dataset dm),
                 a_sample_shape = sample_shape (train_dataset dm),
                 a_shuffle = shuffle (train_dataset dm),
                 a_coords = coords (train_dataset dm),
                 a_tilt_axis = tilt_axis (train_dataset dm)\<rparr>"
  by (simp add: DataModule_save_def Dataset_save_npz savez_name_join endswith_names path_join_inj)

lemma DataModule_save_val:
  "npz_files (DataModule_save w dm path) (path_join path ''val_data.npz'') =
     Some \<lparr>a_tomo_paths_odd = tomo_paths_odd (val_dataset dm),
                 a_tomo_paths_even = tomo_paths_even (val_dataset dm),
                 a_mean = mean (val_dataset dm),
                 a_std = std (val_dataset dm),
                 a_n_samples_per_tomo = n_samples_per_tomo (val_dataset dm),
                 a_extraction_shapes = extraction_shapes (val_dataset dm),
                 a_sample_shape = sample_shape (val_dataset dm),
                 a_shuffle = shuffle (val_dataset dm),
                 a_coords = coords (val_dataset dm),
                 a_tilt_axis = tilt_axis (val_dataset dm)\<rparr>"
  by (simp add: DataModule_save_def Dataset_save_npz savez_name_join endswith_names path_join_inj)

lemma init_supplied:
  assumes "mrc_files w2 = mrc_files w"
  shows "CryoCARE_Dataset_init w2 po pe masks n es (Some m) (Some s) ss sh b2 tilt r
         = CryoCARE_Dataset_init w po pe masks n es (Some m) (Some s) ss sh b tilt r"
  by (simp add: CryoCARE_Dataset_init_def assms)

lemma Dataset_load_Inr:
  assumes "Dataset_load w path r = Inr (ds, r')" and "npz_files w path = Some tmp"
    and "a_mean tmp \<noteq> None" "a_std tmp \<noteq> None"
  shows "coords ds = a_coords tmp \<and> mean ds = a_mean tmp \<and> std ds = a_std tmp
         \<and> n_samples_per_tomo ds = a_n_samples_per_tomo tmp \<and> tilt_axis ds = None"
proof -
  from assms(1,2) obtain ds0 where
    i: "CryoCARE_Dataset_init w (a_tomo_paths_odd tmp) (a_tomo_paths_even tmp) None
                   (a_n_samples_per_tomo tmp) (a_extraction_shapes tmp) (a_mean tmp) (a_std tmp)
                   (a_sample_shape tmp) (a_shuffle tmp) 500 None r = Inr (ds0, r')"
    and ds: "ds = ds0\<lparr>coords := a_coords tmp\<rparr>"
    by (auto simp: Dataset_load_def bindE_eq_Inr)
  from init_Inr [OF i] assms(3,4) ds show ?thesis by simp
qed

text \<open>
  Claim C9. Whatever split axis is passed to \<^verbatim>\<open>setup\<close>, when it returns the validation
  dataset carries no split-axis tag (\<^verbatim>\<open>tilt_axis = None\<close>) and the training dataset
  carries the axis given; after \<^verbatim>\<open>save\<close> the validation archive records an absent
  split axis and the training archive the axis given to \<^verbatim>\<open>setup\<close>.
\<close>

theorem validation_tilt_axis_absent:
  assumes "DataModule_setup w po pe masks n vf ss tilt budget r = Inr (dm, r')"
  shows "tilt_axis (val_dataset dm) = None \<and> tilt_axis (train_dataset dm) = Some tilt
         \<and> map_option a_tilt_axis
              (npz_files (DataModule_save w dm path) (path_join path ''val_data.npz'')) = Some None
         \<and> map_option a_tilt_axis
              (npz_files (DataModule_save w dm path) (path_join path ''train_data.npz''))
             = Some (Some tilt)"
proof -
  from assms obtain tes ves r1 where
    t: "CryoCARE_Dataset_init w po pe masks (py_int (of_int n * (1 - vf))) tes None None ss True
       budget (Some tilt) r = Inr (train_dataset dm, r1)" and
    v: "CryoCARE_Dataset_init w po pe masks (py_int (of_int n * vf)) ves
       (mean (train_dataset dm)) (std (train_dataset dm)) ss False 500 None r1
       = Inr (val_dataset dm, r')"
    by (rule setup_Inr)
  have "tilt_axis (train_dataset dm) = Some tilt"
    using init_Inr [OF t] by blast
  moreover have "tilt_axis (val_dataset dm) = None"
    using init_Inr [OF v] by blast
  ultimately show ?thesis
    by (simp add: DataModule_save_train DataModule_save_val)
qed

theorem validation_tilt_axis_absent_witness:
  "tilt_axis val0 = None \<and> tilt_axis train0 = Some ''Y''
   \<and> map_option a_tilt_axis
        (npz_files (DataModule_save world0 \<lparr>train_dataset = train0, val_dataset = val0\<rparr> ''out'')
           (path_join ''out'' ''val_data.npz'')) = Some None
   \<and> map_option a_tilt_axis
        (npz_files (DataModule_save world0 \<lparr>train_dataset = train0, val_dataset = val0\<rparr> ''out'')
           (path_join ''out'' ''train_data.npz'')) = Some (Some ''Y'')"
  using validation_tilt_axis_absent [OF setup0, of "''out''"] by simp

text \<open>
  Claim C5. When \<^verbatim>\<open>setup\<close> returns, the validation dataset's mean and std equal the
  training dataset's; they still do for the datasets that \<^verbatim>\<open>load\<close> returns after
  \<^verbatim>\<open>save\<close>, which carry the statistics of the training dataset that was saved. The
  validation dataset is never estimated on its own: the training statistics are
  present, and the constructor call that builds the validation dataset returns the
  same dataset whatever \<^verbatim>\<open>np.mean\<close> and \<^verbatim>\<open>np.std\<close> would compute and whatever the
  normalization budget is.
\<close>

theorem validation_shares_statistics:
  assumes "DataModule_setup w po pe masks n vf ss tilt budget r = Inr (dm, r')"
  shows "mean (val_dataset dm) = mean (train_dataset dm)
         \<and> std (val_dataset dm) = std (train_dataset dm)
         \<and> (\<forall>path rl dm2 rl'.
               DataModule_load (DataModule_save w dm path) path rl = Inr (dm2, rl') \<longrightarrow>
               mean (val_dataset dm2) = mean (train_dataset dm2)
               \<and> std (val_dataset dm2) = std (train_dataset dm2)
               \<and> mean (train_dataset dm2) = mean (train_dataset dm)
               \<and> std (train_dataset dm2) = std (train_dataset dm))
         \<and> (\<exists>m s ves r1. mean (train_dataset dm) = Some m \<and> std (train_dataset dm) = Some s
               \<and> (\<forall>f g b. CryoCARE_Dataset_init (w\<lparr>np_mean := f, np_std := g\<rparr>) po pe masks
                            (py_int (of_int n * vf)) ves (Some m) (Some s) ss False b None r1
                          = Inr (val_dataset dm, r')))"
proof -
  from assms obtain tes ves r1 where
    t: "CryoCARE_Dataset_init w po pe masks (py_int (of_int n * (1 - vf))) tes None None ss True
       budget (Some tilt) r = Inr (train_dataset dm, r1)" and
    v: "CryoCARE_Dataset_init w po pe masks (py_int (of_int n * vf)) ves
       (mean (train_dataset dm)) (std (train_dataset dm)) ss False 500 None r1
       = Inr (val_dataset dm, r')"
    by (rule setup_Inr)
  from init_Inr [OF t] obtain m s where
    ms: "mean (train_dataset dm) = Some m" "std (train_dataset dm) = Some s"
    by auto
  have eq: "mean (val_dataset dm) = mean (train_dataset dm)"
       "std (val_dataset dm) = std (train_dataset dm)"
    using init_Inr [OF v] ms by simp_all
  have rt: "mean (val_dataset dm2) = mean (train_dataset dm2)
               \<and> std (val_dataset dm2) = std (train_dataset dm2)
               \<and> mean (train_dataset dm2) = mean (train_dataset dm)
               \<and> std (train_dataset dm2) = std (train_dataset dm)"
    if ld: "DataModule_load (DataModule_save w dm path) path rl = Inr (dm2, rl')"
    for path rl dm2 rl'
  proof -
    from ld obtain rm where
      lt: "Dataset_load (DataModule_save w dm path) (path_join path ''train_data.npz'') rl
             = Inr (train_dataset dm2, rm)" and
      lv: "Dataset_load (DataModule_save w dm path) (path_join path ''val_data.npz'') rm
             = Inr (val_dataset dm2, rl')"
      unfolding DataModule_load_def by (auto simp: bindE_eq_Inr)
    from Dataset_load_Inr [OF lt DataModule_save_train] ms
    have a: "mean (train_dataset dm2) = mean (train_dataset dm)"
            "std (train_dataset dm2) = std (train_dataset dm)"
      by simp_all
    from Dataset_load_Inr [OF lv DataModule_save_val] ms eq
    have b: "mean (val_dataset dm2) = mean (val_dataset dm)"
            "std (val_dataset dm2) = std (val_dataset dm)"
      by simp_all
    from a b eq show ?thesis by simp
  qed
  have ne: "CryoCARE_Dataset_init (w\<lparr>np_mean := f, np_std := g\<rparr>) po pe masks
              (py_int (of_int n * vf)) ves (Some m) (Some s) ss False b None r1
            = Inr (val_dataset dm, r')" for f g b
  proof -
    have "CryoCARE_Dataset_init (w\<lparr>np_mean := f, np_std := g\<rparr>) po pe masks
              (py_int (of_int n * vf)) ves (Some m) (Some s) ss False b None r1
          = CryoCARE_Dataset_init w po pe masks
              (py_int (of_int n * vf)) ves (Some m) (Some s) ss False 500 None r1"
      by (rule init_supplied) simp
    with v ms show ?thesis by simp
  qed
  from eq rt ms ne show ?thesis by blast
qed


lemma dm0_save_files:
  "mrc_files (DataModule_save world0 \<lparr>train_dataset = train0, val_dataset = val0\<rparr> ''out'')
     = mrc_files world0"
  by (rule DataModule_save_files)

lemma init_train0_reload:
  "CryoCARE_Dataset_init world0 [''odd.mrc''] [''even.mrc''] None 3 [((0, 2), (0, 5))]
     (Some 0) (Some 1) (1, 1, 1) True 500 None rng0
   = Inr (train0\<lparr>tilt_axis := None, rot_axes := None\<rparr>, rng0)"
  by (simp add: CryoCARE_Dataset_init_def mmap_def coords_train0
        permutation_rng0 upt_conv_Cons train0_def Let_def
        numeral_3_eq_3 [symmetric] numeral_2_eq_2 [symmetric])

lemma load_train0:
  "Dataset_load (DataModule_save world0 \<lparr>train_dataset = train0, val_dataset = val0\<rparr> ''out'')
     (path_join ''out'' ''train_data.npz'') rng0
   = Inr (train0\<lparr>tilt_axis := None, rot_axes := None\<rparr>, rng0)"
proof -
  have i: "CryoCARE_Dataset_init
             (DataModule_save world0 \<lparr>train_dataset = train0, val_dataset = val0\<rparr> ''out'')
             [''odd.mrc''] [''even.mrc''] None 3 [((0, 2), (0, 5))]
             (Some 0) (Some 1) (1, 1, 1) True 500 None rng0
           = Inr (train0\<lparr>tilt_axis := None, rot_axes := None\<rparr>, rng0)"
    by (rule trans [OF init_supplied [OF dm0_save_files] init_train0_reload])
  have f: "tomo_paths_odd train0 = [''odd.mrc'']" "tomo_paths_even train0 = [''even.mrc'']"
    "mean train0 = Some 0" "std train0 = Some 1" "n_samples_per_tomo train0 = 3"
    "extraction_shapes train0 = [((0, 2), (0, 5))]" "sample_shape train0 = (1, 1, 1)"
    "shuffle train0 = True"
    by (simp_all add: train0_def)
  show ?thesis
    by (simp add: Dataset_load_def DataModule_save_train f i)
qed

lemma load_val0:
  "Dataset_load (DataModule_save world0 \<lparr>train_dataset = train0, val_dataset = val0\<rparr> ''out'')
     (path_join ''out'' ''val_data.npz'') rng0
   = Inr (val0, rng0)"
proof -
  have i: "CryoCARE_Dataset_init
             (DataModule_save world0 \<lparr>train_dataset = train0, val_dataset = val0\<rparr> ''out'')
             [''odd.mrc''] [''even.mrc''] None 2 [((2, 5), (0, 5))]
             (Some 0) (Some 1) (1, 1, 1) False 500 None rng0
           = Inr (val0, rng0)"
    by (rule trans [OF init_supplied [OF dm0_save_files] init_val0])
  have f: "tomo_paths_odd val0 = [''odd.mrc'']" "tomo_paths_even val0 = [''even.mrc'']"
    "mean val0 = Some 0" "std val0 = Some 1" "n_samples_per_tomo val0 = 2"
    "extraction_shapes val0 = [((2, 5), (0, 5))]" "sample_shape val0 = (1, 1, 1)"
    "shuffle val0 = False"
    by (simp_all add: val0_def)
  show ?thesis
    by (simp add: Dataset_load_def DataModule_save_val f i)
qed

lemma dm_load0:
  "DataModule_load (DataModule_save world0 \<lparr>train_dataset = train0, val_dataset = val0\<rparr> ''out'')
     ''out'' rng0
   = Inr (\<lparr>train_dataset = train0\<lparr>tilt_axis := None, rot_axes := None\<rparr>,
            val_dataset = val0\<rparr>, rng0)"
  by (simp only: DataModule_load_def load_train0 load_val0 bindE_simps prod.case)

theorem validation_shares_statistics_witness:
  "mean val0 = mean train0 \<and> std val0 = std train0
   \<and> DataModule_load (DataModule_save world0 \<lparr>train_dataset = train0, val_dataset = val0\<rparr> ''out'')
        ''out'' rng0
      = Inr (\<lparr>train_dataset = train0\<lparr>tilt_axis := None, rot_axes := None\<rparr>,
               val_dataset = val0\<rparr>, rng0)
   \<and> mean val0 = mean (train0\<lparr>tilt_axis := None, rot_axes := None\<rparr>)
   \<and> std val0 = std (train0\<lparr>tilt_axis := None, rot_axes := None\<rparr>)
   \<and> mean (train0\<lparr>tilt_axis := None, rot_axes := None\<rparr>) = mean train0"
proof -
  let ?dm2 = "\<lparr>train_dataset = train0\<lparr>tilt_axis := None, rot_axes := None\<rparr>,
               val_dataset = val0\<rparr>"
  note th = validation_shares_statistics [OF setup0, simplified]
  from th have a: "mean val0 = mean train0 \<and> std val0 = std train0"
    by blast
  from th have b: "\<forall>path rl dm2.
             (\<exists>rl'. DataModule_load
                     (DataModule_save world0 \<lparr>train_dataset = train0, val_dataset = val0\<rparr> path)
                     path rl = Inr (dm2, rl')) \<longrightarrow>
             mean (val_dataset dm2) = mean (train_dataset dm2) \<and>
             std (val_dataset dm2) = std (train_dataset dm2) \<and>
             mean (train_dataset dm2) = mean train0 \<and>
             std (train_dataset dm2) = std train0"
    by blast
  from b dm_load0 have c: "mean (val_dataset ?dm2) = mean (train_dataset ?dm2) \<and>
             std (val_dataset ?dm2) = std (train_dataset ?dm2) \<and>
             mean (train_dataset ?dm2) = mean train0"
    by blast
  from a c dm_load0 show ?thesis by simp
qed

section \<open>Saving and loading one dataset\<close>


lemma create_coords_for_tomo_Inr:
  assumes "create_coords_for_tomo files ss n ev od es mp r = Inr res"
  shows "\<exists>v v' msk. files ev = Some v \<and> files od = Some v' \<and> vshape v = vshape v'
           \<and> vshape msk = vshape v
           \<and> (mp = None \<longrightarrow> msk = np_ones (vshape v))
           \<and> (\<forall>p. mp = Some p \<longrightarrow>
                 (\<exists>m. files p = Some m \<and> vshape m = vshape v \<and> msk = astype_bool m))
           \<and> 2 * dim3 ss 0 < shape_at v 0 \<and> 2 * dim3 ss 1 < shape_at v 1
           \<and> create_random_coords ss (fst es) (snd es) msk n r = Inr res"
proof (cases mp)
  case None
  with assms show ?thesis
    by (auto simp: create_coords_for_tomo_def read_mask_def bindE_eq_Inr mmap_eq_Inr
                   np_ones_def not_less
             split: if_splits)
next
  case (Some p)
  with assms show ?thesis
    by (auto simp: create_coords_for_tomo_def read_mask_def bindE_eq_Inr mmap_eq_Inr
                   astype_bool_def not_less
             split: if_splits)
qed








section \<open>Random access: \<^verbatim>\<open>__getitem__\<close> and the statistics\<close>

lemma py_index_in: "0 \<le> i \<Longrightarrow> i < int (length xs) \<Longrightarrow> py_index xs i = Inr (xs ! nat i)"
  by (simp add: py_index_def Let_def)

lemma py_index_past: "int (length xs) \<le> i \<Longrightarrow> py_index xs i = Inl IndexError"
  by (simp add: py_index_def Let_def)

lemma int_div_less:
  fixes idx n L :: int
  assumes "0 < n" "idx < n * L"
  shows "idx div n < L"
proof (rule ccontr)
  assume "\<not> idx div n < L"
  then have "L \<le> idx div n" by simp
  then have "n * L \<le> n * (idx div n)"
    using assms(1) by (simp add: mult_left_mono)
  moreover have "n * (idx div n) + idx mod n = idx"
    by simp
  moreover have "0 \<le> idx mod n"
    using assms(1) by (rule pos_mod_sign)
  ultimately show False using assms(2) by linarith
qed

lemma getitem_valid:
  assumes wf: "well_formed self" and n: "0 < n_samples_per_tomo self"
    and valid: "0 \<le> idx" "idx < n_samples_per_tomo self * int (length (coords self))"
  shows "getitem self idx r =
           Inr (augment
                  (subvolume (tomos_even self ! nat (idx div n_samples_per_tomo self))
                     (fst (coords self ! nat (idx div n_samples_per_tomo self)
                                        ! nat (idx mod n_samples_per_tomo self)))
                     (snd (coords self ! nat (idx div n_samples_per_tomo self)
                                        ! nat (idx mod n_samples_per_tomo self)))
                     (sample_shape self))
                  (subvolume (tomos_odd self ! nat (idx div n_samples_per_tomo self))
                     (fst (coords self ! nat (idx div n_samples_per_tomo self)
                                        ! nat (idx mod n_samples_per_tomo self)))
                     (snd (coords self ! nat (idx div n_samples_per_tomo self)
                                        ! nat (idx mod n_samples_per_tomo self)))
                     (sample_shape self)) r)"
proof -
  let ?n = "n_samples_per_tomo self"
  let ?t = "idx div ?n"
  let ?c = "idx mod ?n"
  have t0: "0 \<le> ?t" using n valid(1) by (simp add: pos_imp_zdiv_nonneg_iff)
  have t1: "?t < int (length (coords self))" using n valid(2) by (rule int_div_less)
  have c0: "0 \<le> ?c" using n by (rule pos_mod_sign)
  have c1: "?c < ?n" using n by (rule pos_mod_bound)
  have tn: "nat ?t < length (coords self)" using t0 t1 by simp
  then have "coords self ! nat ?t \<in> set (coords self)" by simp
  with wf have rl: "int (length (coords self ! nat ?t)) = ?n"
    by (simp add: well_formed_def)
  have row: "py_index (coords self) ?t = Inr (coords self ! nat ?t)"
    using t0 t1 by (rule py_index_in)
  have crd: "py_index (coords self ! nat ?t) ?c = Inr (coords self ! nat ?t ! nat ?c)"
    using c0 c1 rl by (simp add: py_index_in)
  have "?t < int (length (tomos_even self))" "?t < int (length (tomos_odd self))"
    using t1 wf by (simp_all add: well_formed_def)
  then have ev: "py_index (tomos_even self) ?t = Inr (tomos_even self ! nat ?t)"
    and od: "py_index (tomos_odd self) ?t = Inr (tomos_odd self ! nat ?t)"
    using t0 by (simp_all add: py_index_in)
  show ?thesis
    using n by (simp add: getitem_def Let_def row crd ev od prod.case_eq_if)
qed

lemma getitem_past:
  assumes n: "0 < n_samples_per_tomo self"
  shows "getitem self (n_samples_per_tomo self * int (length (coords self))) r = Inl IndexError"
proof -
  have "n_samples_per_tomo self * int (length (coords self)) div n_samples_per_tomo self
          = int (length (coords self))"
    using n by simp
  then show ?thesis
    using n by (simp add: getitem_def Let_def py_index_past)
qed

lemma collect_samples_past:
  assumes wf: "well_formed self" and n: "0 < n_samples_per_tomo self"
    and tot: "int tot = n_samples_per_tomo self * int (length (coords self))"
    and i: "i \<le> tot" and k: "tot < k"
  shows "collect_samples self (map int [i..<k]) r = Inl IndexError"
  using i
proof (induction "tot - i" arbitrary: i r)
  case 0
  then have i: "i = tot" by simp
  have "[i..<k] = i # [Suc i..<k]"
    using k i by (simp add: upt_conv_Cons)
  then show ?case
    using getitem_past [OF n, of r] by (simp add: i tot)
next
  case (Suc d)
  then have lt: "i < tot" by simp
  have up: "[i..<k] = i # [Suc i..<k]"
    using k lt by (simp add: upt_conv_Cons)
  have "int i < n_samples_per_tomo self * int (length (coords self))"
    using lt tot by linarith
  from getitem_valid [OF wf n _ this, of r] obtain pq r1 where
    g: "getitem self (int i) r = Inr (pq, r1)"
    by (cases "augment
                  (subvolume (tomos_even self ! nat (int i div n_samples_per_tomo self))
                     (fst (coords self ! nat (int i div n_samples_per_tomo self)
                                        ! nat (int i mod n_samples_per_tomo self)))
                     (snd (coords self ! nat (int i div n_samples_per_tomo self)
                                        ! nat (int i mod n_samples_per_tomo self)))
                     (sample_shape self))
                  (subvolume (tomos_odd self ! nat (int i div n_samples_per_tomo self))
                     (fst (coords self ! nat (int i div n_samples_per_tomo self)
                                        ! nat (int i mod n_samples_per_tomo self)))
                     (snd (coords self ! nat (int i div n_samples_per_tomo self)
                                        ! nat (int i mod n_samples_per_tomo self)))
                     (sample_shape self)) r") simp
  have "collect_samples self (map int [Suc i..<k]) r1 = Inl IndexError"
    using Suc.hyps(2) lt by (intro Suc.hyps(1)) simp_all
  then show ?case
    by (simp add: up g prod.case_eq_if)
qed

lemma create_coordinate_lists_props:
  assumes "create_coordinate_lists files ss n items r = Inr (cs, r')"
  shows "length cs = length items \<and> (\<forall>c\<in>set cs. length c = nat n) \<and> (items \<noteq> [] \<longrightarrow> 0 \<le> n)"
  using assms
proof (induction items arbitrary: r cs r')
  case Nil
  then show ?case by simp
next
  case (Cons item items)
  obtain od ev es mp where item: "item = (od, ev, es, mp)"
    by (cases item) auto
  from Cons.prems obtain c r1 cs' where
    h: "create_coords_for_tomo files ss n ev od es mp r = Inr (c, r1)" and
    t: "create_coordinate_lists files ss n items r1 = Inr (cs', r')" and
    cs: "cs = c # cs'"
    by (auto simp: item bindE_eq_Inr)
  from create_coords_for_tomo_Inr [OF h] obtain msk where
    c: "create_random_coords ss (fst es) (snd es) msk n r = Inr (c, r1)"
    by blast
  then obtain idxs where
    ch: "np_random_choice (length (valid_inds ss (fst es) (snd es) msk)) n
           (int (length (valid_inds ss (fst es) (snd es) msk)) < n) r = Inr (idxs, r1)"
    and ci: "c = map (\<lambda>s. valid_inds ss (fst es) (snd es) msk ! s) idxs"
    by (rule create_random_coords_Inr)
  from choice_props [OF ch] ci have lc: "length c = nat n" by simp
  from c have n0: "0 \<le> n"
    using create_random_coords_ok_iff [of ss "fst es" "snd es" msk n r] by blast
  from Cons.IH [OF t] lc n0 show ?case by (simp add: cs)
qed

lemma mmap_all_length: "mmap_all files ps = Inr vs \<Longrightarrow> length vs = length ps"
  by (induction ps arbitrary: vs) (auto simp: bindE_eq_Inr)

lemma init_well_formed:
  assumes "CryoCARE_Dataset_init w po pe masks n es m0 s0 ss sh budget tilt r = Inr (ds, r')"
  shows "well_formed ds \<and> length_ds ds = nat n * length (coords ds)"
proof -
  let ?mp = "case masks of None \<Rightarrow> replicate (length po) None | Some ms \<Rightarrow> ms"
  let ?items = "zip po (zip pe (zip es ?mp))"
  from init_Inr [OF assms] obtain ra where
    n: "n_samples_per_tomo ds = n" and
    odds: "mmap_all (mrc_files w) po = Inr (tomos_odd ds)" and
    evens: "mmap_all (mrc_files w) pe = Inr (tomos_even ds)" and
    len: "length_ds ds = sum_list (map length (coords ds))" and
    cl: "create_coordinate_lists (mrc_files w) ss n ?items r = Inr (coords ds, ra)"
    by blast
  from create_coordinate_lists_props [OF cl]
  have p: "length (coords ds) = length ?items" "\<forall>c\<in>set (coords ds). length c = nat n"
    "?items \<noteq> [] \<longrightarrow> 0 \<le> n"
    by simp_all
  have rows: "\<forall>row\<in>set (coords ds). int (length row) = n"
  proof
    fix row assume "row \<in> set (coords ds)"
    with p have "length row = nat n" "0 \<le> n" by auto
    then show "int (length row) = n" by simp
  qed
  have "map length (coords ds) = replicate (length (coords ds)) (nat n)"
    using p(2) by (simp add: map_replicate_const [symmetric] cong: map_cong)
  then have "sum_list (map length (coords ds)) = nat n * length (coords ds)"
    by (simp add: sum_list_replicate)
  moreover have "length (coords ds) \<le> length po" "length (coords ds) \<le> length pe"
    unfolding p(1) by simp_all
  ultimately show ?thesis
    using rows n len mmap_all_length [OF odds] mmap_all_length [OF evens]
    by (simp add: well_formed_def)
qed










lemma init_split:
  "CryoCARE_Dataset_init w po pe masks n es m0 s0 ss sh budget tilt r =
     bindE (CryoCARE_Dataset_init w po pe masks n es (Some m) (Some s) ss sh budget tilt r)
       (\<lambda>(ds, r2).
          if m0 = None \<or> s0 = None
          then compute_mean_std w (ds\<lparr>mean := m0, std := s0\<rparr>) budget r2
          else Inr (ds\<lparr>mean := m0, std := s0\<rparr>, r2))"
  by (auto simp: CryoCARE_Dataset_init_def bindE_def Let_def prod.case_eq_if
           split: sum.splits)

lemma well_formed_stats [simp]:
  "well_formed (ds\<lparr>mean := a, std := b\<rparr>) = well_formed ds"
  by (simp add: well_formed_def)

text \<open>
  Claim C10 (as amended). Suppose the constructor succeeds when both statistics are
  supplied (so everything before the estimation works), the per-volume sample count is
  positive, and the normalization budget exceeds the total length of the dataset so
  built. Then the same construction with mean or std not supplied fails with an
  \<^verbatim>\<open>IndexError\<close> during the estimation: the indices 0, 1, ... are taken in turn and the
  index equal to the length maps to a volume index that has no coordinate set. With a
  per-volume sample count of zero the failure is a \<^verbatim>\<open>ZeroDivisionError\<close> instead, which
  is the counter-example.
\<close>

theorem statistics_budget_past_length:
  assumes ok: "CryoCARE_Dataset_init w po pe masks n es (Some m) (Some s) ss sh budget tilt r
                 = Inr (ds, r1)"
    and pos: "0 < n"
    and over: "int (length_ds ds) < budget"
    and unset: "m0 = None \<or> s0 = None"
  shows "CryoCARE_Dataset_init w po pe masks n es m0 s0 ss sh budget tilt r = Inl IndexError"
proof -
  let ?self = "ds\<lparr>mean := m0, std := s0\<rparr>"
  have n: "n_samples_per_tomo ds = n"
    using init_Inr [OF ok] by blast
  from init_well_formed [OF ok]
  have wf: "well_formed ?self" and len: "length_ds ds = nat n * length (coords ds)"
    by simp_all
  have n': "0 < n_samples_per_tomo ?self"
    using pos n by simp
  have tot: "int (length_ds ds) = n_samples_per_tomo ?self * int (length (coords ?self))"
    using pos n len by simp
  have k: "length_ds ds < nat budget"
    using over by simp
  have "collect_samples ?self (map int [0..<nat budget]) r1 = Inl IndexError"
    by (rule collect_samples_past [OF wf n' tot _ k]) simp
  then have "compute_mean_std w ?self budget r1 = Inl IndexError"
    by (simp add: compute_mean_std_def)
  with unset show ?thesis
    by (simp add: init_split [of w po pe masks n es m0 s0 ss sh budget tilt r m s] ok)
qed

theorem statistics_budget_past_length_witness:
  "(0::int) < 3
   \<and> int (length_ds (train0\<lparr>tilt_axis := None, rot_axes := None\<rparr>)) < 500
   \<and> CryoCARE_Dataset_init world0 [''odd.mrc''] [''even.mrc''] None 3 [((0, 2), (0, 5))]
        None None (1, 1, 1) True 500 None rng0 = Inl IndexError"
proof -
  have l: "int (length_ds (train0\<lparr>tilt_axis := None, rot_axes := None\<rparr>)) < 500"
    by (simp add: train0_def)
  from statistics_budget_past_length [OF init_train0_reload _ l, of None None]
  show ?thesis using l by simp
qed

lemma init_none0:
  "CryoCARE_Dataset_init world0 [''odd.mrc''] [''even.mrc''] None 0 [((0, 2), (0, 5))]
     (Some 0) (Some 1) (1, 1, 1) True 1 None rng0 = Inr (none0, rng0)"
proof -
  have "create_random_coords (1, 1, 1) (0, 2) (0, 5) (np_ones (5, 5, 2)) 0 rng0 = Inr ([], rng0)"
    by (simp add: create_random_coords_rng0)
  then have c: "create_coords_for_tomo (mrc_files world0) (1, 1, 1) 0 ''even.mrc'' ''odd.mrc''
     ((0, 2), (0, 5)) None rng0 = Inr ([], rng0)"
    by (simp add: create_coords_for_tomo_def read_mask_def mmap_def vol0_def shape_at_def)
  show ?thesis
    by (simp add: CryoCARE_Dataset_init_def mmap_def c permutation_rng0 none0_def Let_def)
qed

theorem statistics_budget_counterexample:
  "CryoCARE_Dataset_init world0 [''odd.mrc''] [''even.mrc''] None 0 [((0, 2), (0, 5))]
     (Some 0) (Some 1) (1, 1, 1) True 1 None rng0 = Inr (none0, rng0)
   \<and> int (length_ds none0) < 1
   \<and> CryoCARE_Dataset_init world0 [''odd.mrc''] [''even.mrc''] None 0 [((0, 2), (0, 5))]
        None None (1, 1, 1) True 1 None rng0 = Inl ZeroDivisionError
   \<and> ZeroDivisionError \<noteq> IndexError"
proof -
  have g: "getitem (none0\<lparr>mean := None, std := None\<rparr>) 0 rng0 = Inl ZeroDivisionError"
    by (simp add: getitem_def none0_def)
  have "compute_mean_std world0 (none0\<lparr>mean := None, std := None\<rparr>) 1 rng0
          = Inl ZeroDivisionError"
    by (simp add: compute_mean_std_def g)
  then have "CryoCARE_Dataset_init world0 [''odd.mrc''] [''even.mrc''] None 0 [((0, 2), (0, 5))]
        None None (1, 1, 1) True 1 None rng0 = Inl ZeroDivisionError"
    by (simp add: init_split [of world0 _ _ _ _ _ None None _ _ _ _ _ 0 1] init_none0)
  moreover have "int (length_ds none0) < 1"
    by (simp add: none0_def)
  ultimately show ?thesis
    using init_none0 by simp
qed

section \<open>Sampling from a region without a valid position\<close>

lemma sum_not_Inr: "(\<exists>e. x = Inl e) \<longleftrightarrow> (\<forall>a. x \<noteq> Inr a)"
  by (cases x) auto

lemma create_coords_for_tomo_empty:
  assumes "files ev = Some v" "read_mask files mp (vshape v) = Inr msk"
    "valid_inds ss (fst es) (snd es) msk = []" "0 < n"
  shows "\<exists>e. create_coords_for_tomo files ss n ev od es mp r = Inl e"
  using assms
  by (auto simp: create_coords_for_tomo_def mmap_def create_random_coords_Inl
           split: option.splits)

lemma create_coordinate_lists_member:
  assumes "create_coordinate_lists files ss n items r = Inr res"
    and "(od, ev, es, mp) \<in> set items"
  shows "\<exists>r0 res0. create_coords_for_tomo files ss n ev od es mp r0 = Inr res0"
  using assms
proof (induction items arbitrary: r res)
  case Nil
  then show ?case by simp
next
  case (Cons item items)
  obtain od' ev' es' mp' where item: "item = (od', ev', es', mp')"
    by (cases item) auto
  from Cons.prems(1) obtain c r1 cs r2 where
    h: "create_coords_for_tomo files ss n ev' od' es' mp' r = Inr (c, r1)" and
    t: "create_coordinate_lists files ss n items r1 = Inr (cs, r2)"
    by (auto simp: item bindE_eq_Inr)
  show ?case
  proof (cases "(od, ev, es, mp) = item")
    case True
    with h item show ?thesis by blast
  next
    case False
    with Cons.prems(2) have "(od, ev, es, mp) \<in> set items" by simp
    from Cons.IH [OF t this] show ?thesis .
  qed
qed

lemma init_empty_region:
  assumes item: "(od, ev, win, mp) \<in> set (zip po (zip pe (zip wins
                    (case masks of None \<Rightarrow> replicate (length po) None | Some ms \<Rightarrow> ms))))"
    and vol: "mrc_files w ev = Some v"
    and msk: "read_mask (mrc_files w) mp (vshape v) = Inr msk"
    and empty: "valid_inds ss (fst win) (snd win) msk = []"
    and pos: "0 < cnt"
  shows "CryoCARE_Dataset_init w po pe masks cnt wins m0 s0 ss sh budget tilt r \<noteq> Inr res"
proof
  assume run: "CryoCARE_Dataset_init w po pe masks cnt wins m0 s0 ss sh budget tilt r = Inr res"
  obtain ds r' where res: "res = (ds, r')" by (cases res)
  from init_Inr [OF run [unfolded res]] obtain r1 where
    "create_coordinate_lists (mrc_files w) ss cnt
       (zip po (zip pe (zip wins
          (case masks of None \<Rightarrow> replicate (length po) None | Some ms \<Rightarrow> ms)))) r
       = Inr (coords ds, r1)"
    by blast
  from create_coordinate_lists_member [OF this item] obtain r0 res0 where
    "create_coords_for_tomo (mrc_files w) ss cnt ev od win mp r0 = Inr res0"
    by blast
  with create_coords_for_tomo_empty [OF vol msk empty pos, of od r0] show False
    by auto
qed

lemma valid_inds_mask0:
  "valid_inds (1, 1, 1) (0, 2) (0, 5) (astype_bool (vol0 0)) = []"
  by (simp add: valid_inds_def slice_indices_def slice_bound_def astype_bool_def vol0_def)

text \<open>
  Claim C6 (as amended). Take any volume that a dataset's constructor samples (an entry
  of the zipped lists of odd paths, even paths, extraction windows and mask paths), for
  the training or for the validation dataset of \<^verbatim>\<open>setup\<close>. If the candidate region of
  that volume (its mask, restricted to the window minus the footprint margin) contains no
  valid index and the number of samples requested for that dataset is positive, then
  \<^verbatim>\<open>setup\<close> fails with an error, for every random source: it returns no dataset, so
  none with fewer samples than requested. When the number of samples requested for the
  dataset is zero, an empty region is no error, which is the counter-example.
\<close>

theorem empty_region_fails:
  assumes ws: "extraction_shapes_loop (mrc_files w) tilt ss vf (zip pe po) = Inr (tes, ves)"
    and which: "(wins = tes \<and> cnt = py_int (of_int n * (1 - vf)))
                \<or> (wins = ves \<and> cnt = py_int (of_int n * vf))"
    and item: "(od, ev, win, mp) \<in> set (zip po (zip pe (zip wins
                    (case masks of None \<Rightarrow> replicate (length po) None | Some ms \<Rightarrow> ms))))"
    and vol: "mrc_files w ev = Some v"
    and msk: "read_mask (mrc_files w) mp (vshape v) = Inr msk"
    and empty: "valid_inds ss (fst win) (snd win) msk = []"
    and pos: "0 < cnt"
  shows "\<exists>e. DataModule_setup w po pe masks n vf ss tilt budget r = Inl e"
proof -
  have "DataModule_setup w po pe masks n vf ss tilt budget r \<noteq> Inr res" for res
  proof
    assume run: "DataModule_setup w po pe masks n vf ss tilt budget r = Inr res"
    obtain dm r' where res: "res = (dm, r')" by (cases res)
    from setup_Inr [OF run [unfolded res]] obtain tes' ves' r1 where
      l: "extraction_shapes_loop (mrc_files w) tilt ss vf (zip pe po) = Inr (tes', ves')" and
      t: "CryoCARE_Dataset_init w po pe masks (py_int (of_int n * (1 - vf))) tes' None None ss
            True budget (Some tilt) r = Inr (train_dataset dm, r1)" and
      v: "CryoCARE_Dataset_init w po pe masks (py_int (of_int n * vf)) ves'
            (mean (train_dataset dm)) (std (train_dataset dm)) ss False 500 None r1
            = Inr (val_dataset dm, r')"
      by blast
    from l ws have eq: "tes' = tes" "ves' = ves" by simp_all
    from which show False
    proof
      assume a: "wins = tes \<and> cnt = py_int (of_int n * (1 - vf))"
      with init_empty_region [OF item vol msk empty pos] t eq show False by blast
    next
      assume a: "wins = ves \<and> cnt = py_int (of_int n * vf)"
      with init_empty_region [OF item vol msk empty pos] v eq show False by blast
    qed
  qed
  then show ?thesis by (simp add: sum_not_Inr)
qed

theorem empty_region_fails_witness:
  "extraction_shapes_loop (mrc_files world0) ''Y'' (1, 1, 1) (3 / 8)
      (zip [''even.mrc''] [''odd.mrc'']) = Inr ([((0, 2), (0, 5))], [((2, 5), (0, 5))])
   \<and> (''odd.mrc'', ''even.mrc'', ((0, 2), (0, 5)), Some ''mask.mrc'')
        \<in> set (zip [''odd.mrc''] (zip [''even.mrc''] (zip [((0, 2), (0, 5))] [Some ''mask.mrc''])))
   \<and> mrc_files world0 ''even.mrc'' = Some (vol0 2)
   \<and> read_mask (mrc_files world0) (Some ''mask.mrc'') (vshape (vol0 2)) = Inr (astype_bool (vol0 0))
   \<and> valid_inds (1, 1, 1) (0, 2) (0, 5) (astype_bool (vol0 0)) = []
   \<and> 0 < py_int (of_int 6 * (1 - 3 / 8))
   \<and> (\<exists>e. DataModule_setup world0 [''odd.mrc''] [''even.mrc''] (Some [Some ''mask.mrc''])
              6 (3 / 8) (1, 1, 1) ''Y'' 2 rng0 = Inl e)"
proof -
  have l: "extraction_shapes_loop (mrc_files world0) ''Y'' (1, 1, 1) (3 / 8)
      (zip [''even.mrc''] [''odd.mrc'']) = Inr ([((0, 2), (0, 5))], [((2, 5), (0, 5))])"
    using es_loop0 by simp
  have i: "(''odd.mrc'', ''even.mrc'', ((0, 2), (0, 5)), Some ''mask.mrc'')
        \<in> set (zip [''odd.mrc''] (zip [''even.mrc''] (zip [((0, 2), (0, 5))]
             (case Some [Some ''mask.mrc''] of None \<Rightarrow> replicate (length [''odd.mrc'']) None
              | Some ms \<Rightarrow> ms))))"
    by simp
  have m: "read_mask (mrc_files world0) (Some ''mask.mrc'') (vshape (vol0 2))
             = Inr (astype_bool (vol0 0))"
    by (simp add: read_mask_def mmap_def world0_def vol0_def)
  have e: "valid_inds (1, 1, 1) (fst ((0, 2), (0, 5))) (snd ((0, 2), (0, 5)))
             (astype_bool (vol0 0)) = []"
    by (simp add: valid_inds_mask0)
  have p: "0 < py_int (of_int 6 * (1 - 3 / 8))"
    by (simp add: py_int_def)
  have w: "([((0, 2), (0, 5))] = [((0, 2), (0, 5))]
             \<and> py_int (of_int 6 * (1 - 3 / 8)) = py_int (of_int 6 * (1 - 3 / 8)))
           \<or> ([((0, 2), (0, 5))] = [((2, 5), (0, 5))]
             \<and> py_int (of_int 6 * (1 - 3 / 8)) = py_int (of_int 6 * (3 / 8)))"
    by simp
  from empty_region_fails [OF l w i mrc_world0(2) m e p, of 2 rng0]
  show ?thesis using l m p by (simp add: valid_inds_mask0)
qed

lemma mrc_world1 [simp]:
  "mrc_files world1 ''odd.mrc'' = Some (vol0 1)"
  "mrc_files world1 ''even.mrc'' = Some (vol0 2)"
  "mrc_files world1 ''top.mrc'' = Some top0"
  by (simp_all add: world1_def world0_def)

lemma valid_inds_top_train:
  "valid_inds (1, 1, 1) (0, 2) (0, 5) (astype_bool top0)
     = [(0, 0), (0, 0), (0, 1), (0, 1), (0, 2), (0, 2), (0, 3), (0, 3)]"
  by (simp add: valid_inds_def slice_indices_def slice_bound_def astype_bool_def top0_def
      upt_conv_Cons)

lemma valid_inds_top_val:
  "valid_inds (1, 1, 1) (2, 5) (0, 5) (astype_bool top0) = []"
  by (simp add: valid_inds_def slice_indices_def slice_bound_def astype_bool_def top0_def
      upt_conv_Cons)

lemma coords_train1:
  "create_coords_for_tomo (mrc_files world1) (1, 1, 1) 1 ''even.mrc'' ''odd.mrc''
     ((0, 2), (0, 5)) (Some ''top.mrc'') rng0 = Inr ([(0, 0)], rng0)"
proof -
  have "create_random_coords (1, 1, 1) (0, 2) (0, 5) (astype_bool top0) 1 rng0
          = Inr ([(0, 0)], rng0)"
    by (simp add: create_random_coords_rng0 valid_inds_top_train)
  then show ?thesis
    by (simp add: create_coords_for_tomo_def read_mask_def mmap_def vol0_def top0_def
        shape_at_def)
qed

lemma coords_val1:
  "create_coords_for_tomo (mrc_files world1) (1, 1, 1) 0 ''even.mrc'' ''odd.mrc''
     ((2, 5), (0, 5)) (Some ''top.mrc'') rng0 = Inr ([], rng0)"
proof -
  have "create_random_coords (1, 1, 1) (2, 5) (0, 5) (astype_bool top0) 0 rng0
          = Inr ([], rng0)"
    by (simp add: create_random_coords_rng0 valid_inds_top_val)
  then show ?thesis
    by (simp add: create_coords_for_tomo_def read_mask_def mmap_def vol0_def top0_def
        shape_at_def)
qed

lemma py_int_counts1: "py_int (of_int 2 * (1 - 3 / 8)) = 1" "py_int (of_int 2 * (3 / 8)) = 0"
  by (simp_all add: py_int_def)

lemma init_train1:
  "CryoCARE_Dataset_init world1 [''odd.mrc''] [''even.mrc''] (Some [Some ''top.mrc'']) 1
     [((0, 2), (0, 5))] None None (1, 1, 1) True 1 (Some ''Y'') rng0 = Inr (train1, rng0)"
proof -
  define self0 where "self0 = train1\<lparr>mean := None, std := None\<rparr>"
  have "\<exists>p q. getitem self0 0 rng0 = Inr ((p, q), rng0)"
    by (simp add: getitem_def py_index_def augment_rng0 Let_def self0_def train1_def train0_def)
  then have "\<exists>samples. collect_samples self0 [0] rng0 = Inr (samples, rng0)"
    by auto
  then have cms: "compute_mean_std world1 self0 1 rng0 = Inr (train1, rng0)"
    by (auto simp: compute_mean_std_def world1_def world0_def self0_def train1_def train0_def)
  show ?thesis
    using cms
    by (simp add: CryoCARE_Dataset_init_def axis_index_def mmap_def coords_train1
        permutation_rng0 self0_def train1_def train0_def Let_def)
qed

lemma init_val1:
  "CryoCARE_Dataset_init world1 [''odd.mrc''] [''even.mrc''] (Some [Some ''top.mrc'']) 0
     [((2, 5), (0, 5))] (Some 0) (Some 1) (1, 1, 1) False 500 None rng0 = Inr (val1, rng0)"
  by (simp add: CryoCARE_Dataset_init_def mmap_def coords_val1 val1_def val0_def Let_def)

theorem empty_region_counterexample:
  "read_mask (mrc_files world1) (Some ''top.mrc'') (vshape (vol0 2)) = Inr (astype_bool top0)
   \<and> valid_inds (1, 1, 1) (2, 5) (0, 5) (astype_bool top0) = []
   \<and> DataModule_setup world1 [''odd.mrc''] [''even.mrc''] (Some [Some ''top.mrc''])
       2 (3 / 8) (1, 1, 1) ''Y'' 1 rng0
     = Inr (\<lparr>train_dataset = train1, val_dataset = val1\<rparr>, rng0)
   \<and> extraction_shapes val1 = [((2, 5), (0, 5))]
   \<and> coords val1 = [[]]"
proof -
  have l: "extraction_shapes_loop (mrc_files world1) ''Y'' (1, 1, 1) (3 / 8)
             [(''even.mrc'', ''odd.mrc'')] = Inr ([((0, 2), (0, 5))], [((2, 5), (0, 5))])"
    by (simp add: axis_index_def compute_extraction_shapes_def mmap_def vol0_def
      shape_at_def val_cut_off_of_def py_int_def set_axis_def Let_def)
  have m: "mean train1 = Some 0" "std train1 = Some 1"
    by (simp_all add: train1_def train0_def)
  have z: "zip [''even.mrc''] [''odd.mrc''] = [(''even.mrc'', ''odd.mrc'')]"
    by simp
  have s: "DataModule_setup world1 [''odd.mrc''] [''even.mrc''] (Some [Some ''top.mrc''])
       2 (3 / 8) (1, 1, 1) ''Y'' 1 rng0
     = Inr (\<lparr>train_dataset = train1, val_dataset = val1\<rparr>, rng0)"
    by (simp only: DataModule_setup_def z l bindE_simps prod.case py_int_counts1
        init_train1 m init_val1)
  have r: "read_mask (mrc_files world1) (Some ''top.mrc'') (vshape (vol0 2))
             = Inr (astype_bool top0)"
    by (simp add: read_mask_def mmap_def vol0_def top0_def)
  show ?thesis
    using s r by (simp add: valid_inds_top_val val1_def val0_def)
qed

section \<open>The margins of the sampling region\<close>

lemma valid_inds_val7:
  "valid_inds (3, 1, 1) (4, 7) (0, 7) (np_ones (7, 7, 1))
     = [(4, 0), (4, 1), (4, 2), (4, 3), (5, 0), (5, 1), (5, 2), (5, 3)]"
  by (simp add: valid_inds_def slice_indices_def slice_bound_def np_ones_def upt_conv_Cons)

lemma choice_rng4: "np_random_choice 8 1 False rng4 = Inr ([4], rng4)"
  by (simp add: np_random_choice_def rng_next_def rng4_def upt_conv_Cons)

text \<open>
  Claim C2, at a footprint that is not square. For a pair of volumes of shape (7, 7, 1),
  footprint (3, 1, 1), validation fraction 1/4 and split axis Y, the validation window
  is rows 4 to 7 and columns 0 to 7. The sampler shortens the row slice by
  \<^verbatim>\<open>sample_shape[1]\<close> = 1 and the column slice by \<^verbatim>\<open>sample_shape[0]\<close> = 3, so row 5
  is a candidate; when the draw is 4 the sampler returns the coordinate (5, 0). The
  footprint along the rows is \<^verbatim>\<open>sample_shape[0]\<close> = 3, as \<^verbatim>\<open>__getitem__\<close> and the
  assertions on the volume shape have it, and 5 + 3 exceeds the end of the window, 7.
  The patch read at that coordinate has two rows instead of three.
\<close>

theorem sampler_margin_on_wrong_axis:
  "compute_extraction_shapes files7 ''even.mrc'' ''odd.mrc'' 0 (3, 1, 1) (1 / 4)
     = Inr (((0, 4), (0, 7)), ((4, 7), (0, 7)))
   \<and> create_random_coords (3, 1, 1) (4, 7) (0, 7) (np_ones (7, 7, 1)) 1 rng4
       = Inr ([(5, 0)], rng4)
   \<and> snd (4 :: int, 7 :: int) < 5 + dim3 (3, 1, 1) 0
   \<and> pshape (subvolume vol7 5 0 (3, 1, 1)) = [2, 1, 1, 1]"
proof -
  have a: "compute_extraction_shapes files7 ''even.mrc'' ''odd.mrc'' 0 (3, 1, 1) (1 / 4)
     = Inr (((0, 4), (0, 7)), ((4, 7), (0, 7)))"
    by (simp add: compute_extraction_shapes_def mmap_def files7_def vol7_def
      shape_at_def val_cut_off_of_def py_int_def set_axis_def Let_def)
  have b: "create_random_coords (3, 1, 1) (4, 7) (0, 7) (np_ones (7, 7, 1)) 1 rng4
       = Inr ([(5, 0)], rng4)"
  proof -
    have len: "length [(4::int, 0::int), (4, 1), (4, 2), (4, 3), (5, 0), (5, 1), (5, 2), (5, 3)] = 8"
      by simp
    show ?thesis
      unfolding create_random_coords_def valid_inds_val7 Let_def len
      by (simp add: choice_rng4)
  qed
  have c: "pshape (subvolume vol7 5 0 (3, 1, 1)) = [2, 1, 1, 1]"
    by (simp add: subvolume_def slice_indices_def slice_bound_def vol7_def)
  have d: "snd (4 :: int, 7 :: int) < 5 + dim3 (3, 1, 1) 0"
    by simp
  from a b c d show ?thesis by blast
qed

end
